theory Spec2Isabelle
  imports Main
begin

text \<open>
  The release lifecycle of zed-stylelint-actions: the update path (update-lsp), the
  Change Committer of build-lsp, the Rebase Keeper and the promote path
  (publish-release), embedded as functions on an explicit state. A run is a computation
  that records what it does (processes, requests to the hosting platform, file-system
  calls), sets outputs, and changes a small model of the outside world; what the outside
  world answers is a parameter (\<open>world\<close>), so that a property proved for every world
  holds whatever git, the platform and the file system answer.
\<close>

section \<open>JavaScript strings\<close>

text \<open>
  Strings are byte lists. A JavaScript string is truthy when it is not empty;
  \<open>s.startsWith(p)\<close>, \<open>s.includes(p)\<close> (here \<open>str_includes\<close>) and
  \<open>s.trim()\<close> are written out. A character outside ASCII is its UTF-8 byte sequence.
\<close>

definition truthy :: "string \<Rightarrow> bool" where
  "truthy s = (s \<noteq> [])"

fun startsWith :: "string \<Rightarrow> string \<Rightarrow> bool" where
  "startsWith s [] = True"
| "startsWith [] (p # ps) = False"
| "startsWith (c # cs) (p # ps) = (c = p \<and> startsWith cs ps)"

fun str_includes :: "string \<Rightarrow> string \<Rightarrow> bool" where
  "str_includes [] p = (p = [])"
| "str_includes (c # cs) p = (startsWith (c # cs) p \<or> str_includes cs p)"

text \<open>
  The characters that \<open>String.prototype.trim\<close> strips are the white space and the line
  terminators of ECMAScript: U+0009 to U+000D, U+0020, U+00A0, U+1680, U+2000 to U+200A,
  U+2028, U+2029, U+202F, U+205F, U+3000 and U+FEFF.
\<close>

definition white_space :: "string list" where
  "white_space =
     [ [CHR 0x09], [CHR 0x0A], [CHR 0x0B], [CHR 0x0C], [CHR 0x0D], [CHR 0x20],
       [CHR 0xC2, CHR 0xA0],
       [CHR 0xE1, CHR 0x9A, CHR 0x80],
       [CHR 0xE2, CHR 0x80, CHR 0x80], [CHR 0xE2, CHR 0x80, CHR 0x81],
       [CHR 0xE2, CHR 0x80, CHR 0x82], [CHR 0xE2, CHR 0x80, CHR 0x83],
       [CHR 0xE2, CHR 0x80, CHR 0x84], [CHR 0xE2, CHR 0x80, CHR 0x85],
       [CHR 0xE2, CHR 0x80, CHR 0x86], [CHR 0xE2, CHR 0x80, CHR 0x87],
       [CHR 0xE2, CHR 0x80, CHR 0x88], [CHR 0xE2, CHR 0x80, CHR 0x89],
       [CHR 0xE2, CHR 0x80, CHR 0x8A],
       [CHR 0xE2, CHR 0x80, CHR 0xA8], [CHR 0xE2, CHR 0x80, CHR 0xA9],
       [CHR 0xE2, CHR 0x80, CHR 0xAF],
       [CHR 0xE2, CHR 0x81, CHR 0x9F],
       [CHR 0xE3, CHR 0x80, CHR 0x80],
       [CHR 0xEF, CHR 0xBB, CHR 0xBF] ]"

text \<open>
  The number of bytes of the white-space character a string starts with (0 when it starts
  with none), and likewise at its end.
\<close>

definition leading_space :: "string \<Rightarrow> nat" where
  "leading_space s =
     (case find (startsWith s) white_space of None \<Rightarrow> 0 | Some p \<Rightarrow> length p)"

definition trailing_space :: "string \<Rightarrow> nat" where
  "trailing_space s =
     (case find (\<lambda>p. startsWith (rev s) (rev p)) white_space of
        None \<Rightarrow> 0
      | Some p \<Rightarrow> length p)"

function trimStart :: "string \<Rightarrow> string" where
  "trimStart s = (if leading_space s = 0 then s else trimStart (drop (leading_space s) s))"
  by pat_completeness auto
termination
proof (relation "measure length")
  fix s :: string
  assume "leading_space s \<noteq> 0"
  then have "s \<noteq> []"
    by (auto simp: leading_space_def white_space_def)
  then show "(drop (leading_space s) s, s) \<in> measure length"
    using \<open>leading_space s \<noteq> 0\<close> by simp
qed simp

function trimEnd :: "string \<Rightarrow> string" where
  "trimEnd s =
     (if trailing_space s = 0 then s else trimEnd (take (length s - trailing_space s) s))"
  by pat_completeness auto
termination
proof (relation "measure length")
  fix s :: string
  assume "trailing_space s \<noteq> 0"
  then have "s \<noteq> []"
    by (auto simp: trailing_space_def white_space_def)
  then show "(take (length s - trailing_space s) s, s) \<in> measure length"
    using \<open>trailing_space s \<noteq> 0\<close> by simp
qed simp

declare trimStart.simps [simp del] trimEnd.simps [simp del]

definition trim :: "string \<Rightarrow> string" where
  "trim s = trimEnd (trimStart s)"

section \<open>Data model\<close>

text \<open>A pull request as \<open>findOpenLspUpdatePr\<close> reports it (\<open>number\<close>, \<open>branch\<close>, \<open>headSha\<close>).\<close>

record pull =
  pr_number :: int
  pr_branch :: string
  pr_headSha :: string

text \<open>The manifest \<open>extension.toml\<close>: the extension's version and the language server's.\<close>

record manifest =
  m_version :: string
  lsp_required_version :: string

text \<open>The latest upstream release (\<open>latest.version\<close>, \<open>latest.body\<close>).\<close>

record upstream =
  u_version :: string
  u_body :: string

text \<open>The result of \<open>checkForUpdate\<close>; the skip sentinel \<open>null\<close> is \<open>None\<close>.\<close>

record check =
  needed :: bool
  c_version :: string
  changelog :: string

text \<open>A release entry of the hosting platform.\<close>

record release =
  rel_id :: int
  tag_name :: string
  rel_name :: string
  rel_body :: string
  draft :: bool
  prerelease :: bool
  html_url :: string

text \<open>The commit metadata read by the Commit Verifier; \<open>author?.name\<close> may be undefined.\<close>

record commit_meta =
  author_name :: "string option"
  message :: string

section \<open>Effects\<close>

text \<open>
  A request to the hosting platform (\<open>octokit.rest...\<close>, or one of the helpers of
  \<open>shared/src/github.js\<close>), with the arguments the source passes.
\<close>

datatype request =
    FindOpenLspUpdatePr
  | GetLatestLspRelease
  | GetCommit string
  | ListReleases
  | CreateRelease string string string bool bool
  | UploadReleaseAsset int string
  | UpdateRelease int string string bool bool
  | GetRef string
  | PullsList string
  | PullsUpdate int string string
  | PullsCreate string string string

text \<open>
  What a run does, in order: a process started with its arguments and its exit code, a
  request to the platform, a file-system call (its name and path).
\<close>

datatype event =
    Exec string "string list" int
  | Api request
  | Fs string string

text \<open>
  A tree of files: the paths with the content of each. A path is listed once.
\<close>

type_synonym tree = "(string \<times> string) list"

text \<open>
  The part of the outside world that a run changes: the release entries of the platform
  (newest first, as the platform lists them), the branches of the hosted repository, the
  local remote-tracking refs, the commits created by \<open>git commit\<close> (each with the
  paragraphs of its message), and the three trees of the local repository: the tree of
  the commit \<open>HEAD\<close>, the index (what \<open>git add\<close> has staged), and the work tree (the
  files of the checkout, among them the bundle and the checksum file that the publisher
  writes there). The temporary build directory is outside the checkout; its content is
  not tracked.
\<close>

record sys =
  releases :: "release list"
  remote_refs :: "string \<Rightarrow> string option"
  tracking :: "string \<Rightarrow> string option"
  commit_log :: "string list list"
  head_tree :: tree
  index_tree :: tree
  work_tree :: tree

text \<open>
  The state of a run: the events so far, the outputs set (\<open>setOutput\<close>, in order), the
  warnings, the failure reported by \<open>setFailed\<close>, and the outside world. The log lines
  of \<open>info\<close> are not modelled.
\<close>

record run_state =
  trace :: "event list"
  outputs :: "(string \<times> string) list"
  warnings :: "string list"
  failed :: "string option"
  world_of :: sys

text \<open>
  What the outside world answers: nothing here is computed by the repository. The exit
  code of a process as far as the state of the local repository does not decide it (0
  when nothing goes wrong outside of that state), the standard output and the standard
  error of the processes, the failure (an error message) of a platform request or of a
  file-system call, the action's inputs and the data the platform returns. Further: the
  text that \<open>writeFile\<close> or \<open>tar\<close> puts at a path (\<open>written\<close>), the files of the built
  \<open>dist\<close> directory with their names relative to it (\<open>dist_files\<close>), whether a process
  that failed has left its output file behind (\<open>leaves_output\<close>), what a \<open>git rebase\<close>
  or \<open>git rebase --abort\<close> that ended with a given exit code makes of the three trees
  (\<open>rebased\<close>), and the path at which a tool is found (\<open>tool_path\<close>).
\<close>

record world =
  exit_code :: "string \<Rightarrow> string list \<Rightarrow> int"
  stdout :: "string \<Rightarrow> string list \<Rightarrow> string"
  api_fail :: "request \<Rightarrow> string option"
  fs_fail :: "string \<Rightarrow> string \<Rightarrow> string option"
  input :: "string \<Rightarrow> string"
  open_pulls :: "pull list"
  toml :: manifest
  latest_upstream :: upstream
  commit_at :: "string \<Rightarrow> commit_meta"
  new_release_id :: int
  new_release_url :: string
  file_text :: "string \<Rightarrow> string"
  tmp_dir :: string
  dir_entries :: "string \<Rightarrow> string list"
  is_directory :: "string \<Rightarrow> bool"
  pulls_for :: "string \<Rightarrow> pull list"
  pull_url :: "int \<Rightarrow> string"
  new_pull_number :: int
  head_sha :: string
  context_sha :: string
  stderr :: "string \<Rightarrow> string list \<Rightarrow> string"
  written :: "string \<Rightarrow> string"
  dist_files :: tree
  leaves_output :: "string \<Rightarrow> string list \<Rightarrow> bool"
  rebased :: "string list \<Rightarrow> int \<Rightarrow> tree \<times> tree \<times> tree \<Rightarrow> tree \<times> tree \<times> tree"
  tool_path :: "string \<Rightarrow> string"

text \<open>
  A computation runs on the state and either throws (\<open>Inl\<close> the error message) or
  returns a value.
\<close>

type_synonym 'a comp = "run_state \<Rightarrow> (string + 'a) \<times> run_state"

definition ret :: "'a \<Rightarrow> 'a comp" where
  "ret x s = (Inr x, s)"

definition throw :: "string \<Rightarrow> 'a comp" where
  "throw msg s = (Inl msg, s)"

definition bnd :: "'a comp \<Rightarrow> ('a \<Rightarrow> 'b comp) \<Rightarrow> 'b comp" where
  "bnd m f s = (case m s of (Inl e, s') \<Rightarrow> (Inl e, s') | (Inr x, s') \<Rightarrow> f x s')"

definition emit :: "event \<Rightarrow> unit comp" where
  "emit e s = (Inr (), s\<lparr>trace := trace s @ [e]\<rparr>)"

definition setOutput :: "string \<Rightarrow> string \<Rightarrow> unit comp" where
  "setOutput k v s = (Inr (), s\<lparr>outputs := outputs s @ [(k, v)]\<rparr>)"

definition warning :: "string \<Rightarrow> unit comp" where
  "warning msg s = (Inr (), s\<lparr>warnings := warnings s @ [msg]\<rparr>)"

definition setFailed :: "string \<Rightarrow> unit comp" where
  "setFailed msg s = (Inr (), s\<lparr>failed := Some msg\<rparr>)"

definition modify_sys :: "(sys \<Rightarrow> sys) \<Rightarrow> unit comp" where
  "modify_sys f s = (Inr (), s\<lparr>world_of := f (world_of s)\<rparr>)"

text \<open>The value of an output after the run: the last \<open>setOutput\<close> of that name.\<close>

definition output_of :: "run_state \<Rightarrow> string \<Rightarrow> string option" where
  "output_of s k = map_of (rev (outputs s)) k"

text \<open>
  \<open>getInput(name, { required })\<close> of \<open>@actions/core\<close>: a required input that is
  empty throws; the value is trimmed.
\<close>

definition getInput :: "world \<Rightarrow> string \<Rightarrow> bool \<Rightarrow> string comp" where
  "getInput w name required =
     (if required \<and> \<not> truthy (input w name)
      then throw (''Input required and not supplied: '' @ name)
      else ret (trim (input w name)))"

text \<open>A request to the platform: recorded, then it fails or answers.\<close>

definition api :: "world \<Rightarrow> request \<Rightarrow> unit comp" where
  "api w r = bnd (emit (Api r)) (\<lambda>_.
     case api_fail w r of Some msg \<Rightarrow> throw msg | None \<Rightarrow> ret ())"

text \<open>
  A path is under a pathspec (a file or a directory, with or without a final \<open>/\<close>) when
  it is that file or lies in that directory.
\<close>

definition under :: "string \<Rightarrow> string \<Rightarrow> bool" where
  "under spec p =
     (p = spec \<or>
      startsWith p (if spec \<noteq> [] \<and> last spec = CHR ''/'' then spec else spec @ ''/''))"

definition put_file :: "string \<Rightarrow> string \<Rightarrow> tree \<Rightarrow> tree" where
  "put_file p c t = (p, c) # filter (\<lambda>e. fst e \<noteq> p) t"

definition remove_under :: "string \<Rightarrow> tree \<Rightarrow> tree" where
  "remove_under spec t = filter (\<lambda>e. \<not> under spec (fst e)) t"

text \<open>
  \<open>cp(source, dest, { recursive, force })\<close> of \<open>@actions/io\<close>, for the source directory
  \<open>dist\<close>: its files are written under \<open>dest\<close>, or under \<open>dest/dist\<close> when \<open>dest\<close> is
  a directory that exists (here: one that holds a file); the other files stay.
\<close>

definition copy_dist :: "tree \<Rightarrow> string \<Rightarrow> tree \<Rightarrow> tree" where
  "copy_dist dist dest t =
     (let newDest = (if list_ex (\<lambda>e. startsWith (fst e) (dest @ ''/'')) t
                     then dest @ ''/dist'' else dest);
          copied = map (\<lambda>e. (newDest @ ''/'' @ fst e, snd e)) dist
      in copied @ filter (\<lambda>e. fst e \<notin> set (map fst copied)) t)"

text \<open>
  What a file-system call that succeeded has changed in the work tree: \<open>writeFile\<close>
  puts the text at the path, \<open>cp\<close> copies the built files, \<open>rm\<close> and \<open>rmRF\<close> remove
  the path and what lies in it. The calls that read, and \<open>mkdtemp\<close>, change nothing
  that is tracked.
\<close>

definition fs_effect :: "world \<Rightarrow> string \<Rightarrow> string \<Rightarrow> sys \<Rightarrow> sys" where
  "fs_effect w op path y =
     (if op = ''writeFile'' then y\<lparr>work_tree := put_file path (written w path) (work_tree y)\<rparr>
      else if op = ''cp'' then y\<lparr>work_tree := copy_dist (dist_files w) path (work_tree y)\<rparr>
      else if op \<in> set [''rm'', ''rmRF''] then y\<lparr>work_tree := remove_under path (work_tree y)\<rparr>
      else y)"

text \<open>A call of \<open>fs/promises\<close> or \<open>@actions/io\<close>: recorded, then it fails or succeeds.\<close>

definition fs :: "world \<Rightarrow> string \<Rightarrow> string \<Rightarrow> unit comp" where
  "fs w op path = bnd (emit (Fs op path)) (\<lambda>_.
     case fs_fail w op path of
       Some msg \<Rightarrow> throw msg
     | None \<Rightarrow> modify_sys (fs_effect w op path))"

text \<open>\<open>try { m } catch { }\<close>: an error of \<open>m\<close> is dropped.\<close>

definition swallow :: "'a comp \<Rightarrow> unit comp" where
  "swallow m s = (case m s of (Inl e, s') \<Rightarrow> (Inr (), s') | (Inr x, s') \<Rightarrow> (Inr (), s'))"

text \<open>\<open>try { m; ok = true } catch { }\<close>: whether \<open>m\<close> returned.\<close>

definition succeeds :: "'a comp \<Rightarrow> bool comp" where
  "succeeds m s = (case m s of (Inl e, s') \<Rightarrow> (Inr False, s') | (Inr x, s') \<Rightarrow> (Inr True, s'))"

text \<open>\<open>try { m } finally { c }\<close>: \<open>c\<close> runs in both cases; its own error wins.\<close>

definition finally_do :: "'a comp \<Rightarrow> unit comp \<Rightarrow> 'a comp" where
  "finally_do m c s =
     (case m s of (r, s') \<Rightarrow>
        (case c s' of (Inl e, s'') \<Rightarrow> (Inl e, s'') | (Inr u, s'') \<Rightarrow> (r, s'')))"

text \<open>
  The body of every \<open>run\<close> is \<open>try { ... } catch (error) { setFailed(error.message) }\<close>.
\<close>

definition run_main :: "unit comp \<Rightarrow> run_state \<Rightarrow> run_state" where
  "run_main body s =
     (case body s of (Inl msg, s') \<Rightarrow> snd (setFailed msg s') | (Inr u, s') \<Rightarrow> s')"

section \<open>Processes\<close>

text \<open>Decimal rendering (\<open>n.toString()\<close>).\<close>

function dec :: "nat \<Rightarrow> string" where
  "dec n = (if n < 10 then [char_of (48 + n)] else dec (n div 10) @ [char_of (48 + n mod 10)])"
  by pat_completeness auto
termination
  by (relation "measure id") auto

declare dec.simps [simp del]

definition int_str :: "int \<Rightarrow> string" where
  "int_str i = (if i < 0 then CHR ''-'' # dec (nat (- i)) else dec (nat i))"

text \<open>The paragraphs of a commit message: the words that follow each \<open>-m\<close>.\<close>

fun messages_of :: "string list \<Rightarrow> string list" where
  "messages_of (a # m # rest) =
     (if a = ''-m'' then m # messages_of rest else messages_of (m # rest))"
| "messages_of rest = []"

text \<open>
  The remote and the branch a \<open>git push\<close> writes: the words that are not options are
  \<open>push <remote> <refspec>\<close>, and the refspec is \<open>HEAD:<branch>\<close> or \<open><branch>\<close>.
\<close>

definition push_target :: "string list \<Rightarrow> (string \<times> string) option" where
  "push_target args =
     (case filter (\<lambda>a. \<not> startsWith a ''--'') args of
        [p, remote, refspec] \<Rightarrow>
          if p = ''push''
          then Some (remote, if startsWith refspec ''HEAD:'' then drop 5 refspec else refspec)
          else None
      | _ \<Rightarrow> None)"

text \<open>
  \<open>git add <pathspec>...\<close>: the index takes, for the paths under the pathspecs, what the
  work tree holds (a file that is gone from the work tree leaves the index); the other
  entries of the index stay.
\<close>

definition matched :: "string list \<Rightarrow> string \<Rightarrow> bool" where
  "matched specs p = list_ex (\<lambda>spec. under spec p) specs"

definition stage :: "string list \<Rightarrow> tree \<Rightarrow> tree \<Rightarrow> tree" where
  "stage specs wt idx =
     filter (\<lambda>e. matched specs (fst e)) wt @ filter (\<lambda>e. \<not> matched specs (fst e)) idx"

text \<open>The paths at which two trees differ.\<close>

definition changed_paths :: "tree \<Rightarrow> tree \<Rightarrow> string list" where
  "changed_paths a b =
     filter (\<lambda>p. map_of a p \<noteq> map_of b p) (remdups (map fst a @ map fst b))"

text \<open>
  What the state of the local repository decides of the exit code of a git command that
  meets no other obstacle. \<open>git add\<close> exits with 128 when one of its pathspecs matches
  no file, neither in the work tree nor in the index (\<open>pathspec ... did not match any
  files\<close>); \<open>git diff --cached --quiet\<close> exits with 1 when the index differs from
  \<open>HEAD\<close> and with 0 when it does not; \<open>git commit\<close> exits with 1 when nothing is staged.
\<close>

definition all_matched :: "string list \<Rightarrow> sys \<Rightarrow> bool" where
  "all_matched specs y =
     list_all (\<lambda>spec. list_ex (under spec) (map fst (work_tree y) @ map fst (index_tree y)))
       specs"

definition git_exit :: "string list \<Rightarrow> sys \<Rightarrow> int" where
  "git_exit args y =
     (case args of
        [] \<Rightarrow> 0
      | sub # rest \<Rightarrow>
          if sub = ''add'' then (if all_matched rest y then 0 else 128)
          else if sub = ''diff'' \<and> rest = [''--cached'', ''--quiet''] then
            (if changed_paths (index_tree y) (head_tree y) = [] then 0 else 1)
          else if sub = ''commit'' then
            (if changed_paths (index_tree y) (head_tree y) = [] then 1 else 0)
          else 0)"

text \<open>
  The exit code of a process: the code the outside world gives when that is not 0,
  otherwise the code the state of the repository decides.
\<close>

definition process_exit :: "world \<Rightarrow> string \<Rightarrow> string list \<Rightarrow> sys \<Rightarrow> int" where
  "process_exit w tool args y =
     (if exit_code w tool args \<noteq> 0 then exit_code w tool args
      else if tool = ''git'' then git_exit args y
      else 0)"

text \<open>
  The lines of \<open>git status --porcelain <pathspec>...\<close>: one line for each path under
  the pathspecs (each path when there is none) at which the index differs from \<open>HEAD\<close>
  or the work tree from the index, with the two status letters of git (\<open>??\<close> for a file
  that is not in the index).
\<close>

definition status_lines :: "sys \<Rightarrow> string \<Rightarrow> string list" where
  "status_lines y p =
     (let h = map_of (head_tree y) p; i = map_of (index_tree y) p; t = map_of (work_tree y) p in
      if i = None then
        (if h = None then [] else [''D  '' @ p]) @ (if t = None then [] else [''?? '' @ p])
      else if i = h \<and> t = i then []
      else
        [ [if i = h then CHR '' '' else if h = None then CHR ''A'' else CHR ''M'',
           if t = i then CHR '' '' else if t = None then CHR ''D'' else CHR ''M'',
           CHR '' ''] @ p ])"

definition status_porcelain :: "string list \<Rightarrow> sys \<Rightarrow> string" where
  "status_porcelain specs y =
     concat (map (\<lambda>l. l @ [CHR 0x0A])
       (concat (map (status_lines y)
          (filter (\<lambda>p. specs = [] \<or> matched specs p)
             (remdups (map fst (head_tree y) @ map fst (index_tree y) @
                       map fst (work_tree y)))))))"

text \<open>
  What a process prints: the state of the repository decides it for
  \<open>git status --porcelain\<close>, the outside world for every other command.
\<close>

definition process_output :: "world \<Rightarrow> string \<Rightarrow> string list \<Rightarrow> sys \<Rightarrow> string" where
  "process_output w tool args y =
     (if tool = ''git'' \<and> take 2 args = [''status'', ''--porcelain'']
      then status_porcelain (drop 2 args) y
      else stdout w tool args)"

text \<open>
  What a process has changed once it has done its work, for the commands the actions run:
  \<open>git fetch <remote> <branch>\<close> sets the remote-tracking ref to the hosted branch,
  \<open>git push\<close> sets the hosted branch and its remote-tracking ref to the local commit
  (\<open>head_sha\<close>), \<open>git add\<close> stages, \<open>git commit\<close> adds a commit whose tree is the
  index, \<open>tar -czf <name> <dir>\<close> writes the archive, \<open>rm\<close> removes the files named
  (the words that are not options).
  \<open>git checkout -b\<close> names a new branch at \<open>HEAD\<close> and leaves the trees alone. The
  local configuration (which \<open>git config\<close> writes) and the clone and the build in the
  temporary directory are not tracked.
\<close>

definition cmd_effect :: "world \<Rightarrow> string \<Rightarrow> string list \<Rightarrow> sys \<Rightarrow> sys" where
  "cmd_effect w tool args y =
     (if tool = ''git'' then
        (case args of
           [] \<Rightarrow> y
         | sub # rest \<Rightarrow>
             if sub = ''fetch'' then
               (case rest of
                  [remote, b] \<Rightarrow> y\<lparr>tracking := (tracking y)(remote @ ''/'' @ b := remote_refs y b)\<rparr>
                | _ \<Rightarrow> y)
             else if sub = ''push'' then
               (case push_target args of
                  Some (remote, b) \<Rightarrow>
                    y\<lparr>remote_refs := (remote_refs y)(b \<mapsto> head_sha w),
                      tracking := (tracking y)(remote @ ''/'' @ b \<mapsto> head_sha w)\<rparr>
                | None \<Rightarrow> y)
             else if sub = ''add'' then
               y\<lparr>index_tree := stage rest (work_tree y) (index_tree y)\<rparr>
             else if sub = ''commit'' then
               y\<lparr>commit_log := commit_log y @ [messages_of rest], head_tree := index_tree y\<rparr>
             else y)
      else if tool = ''tar'' then
        (case args of
           [opt, name, dir] \<Rightarrow> y\<lparr>work_tree := put_file name (written w name) (work_tree y)\<rparr>
         | _ \<Rightarrow> y)
      else if tool = ''rm'' then
        y\<lparr>work_tree := filter (\<lambda>e. fst e \<notin> set (filter (\<lambda>a. \<not> startsWith a ''-'') args))
                          (work_tree y)\<rparr>
      else y)"

text \<open>
  \<open>git rebase\<close> and \<open>git rebase --abort\<close> move \<open>HEAD\<close>, the index and the work tree
  to commits whose content the model does not hold: the outside world tells the outcome,
  whatever the exit code.
\<close>

definition move_head :: "world \<Rightarrow> string list \<Rightarrow> int \<Rightarrow> sys \<Rightarrow> sys" where
  "move_head w args c y =
     (case rebased w args c (head_tree y, index_tree y, work_tree y) of
        (h, i, t) \<Rightarrow> y\<lparr>head_tree := h, index_tree := i, work_tree := t\<rparr>)"

text \<open>
  What a process that ended with the exit code \<open>c\<close> has changed: with 0 it has done its
  work; with another code it has changed nothing, except that a \<open>tar\<close> can leave the
  archive behind and a rebase stops where it is.
\<close>

definition process_effect :: "world \<Rightarrow> string \<Rightarrow> string list \<Rightarrow> int \<Rightarrow> sys \<Rightarrow> sys" where
  "process_effect w tool args c y =
     (if tool = ''git'' \<and> take 1 args = [''rebase''] then move_head w args c y
      else if c = 0 then cmd_effect w tool args y
      else if tool = ''tar'' \<and> leaves_output w tool args then cmd_effect w tool args y
      else y)"

text \<open>
  A process that runs to its end: its exit code, what it printed, and the state with the
  event recorded and the change made.
\<close>

definition run_process ::
  "world \<Rightarrow> string \<Rightarrow> string list \<Rightarrow> run_state \<Rightarrow> int \<times> string \<times> run_state" where
  "run_process w tool args s =
     (let c = process_exit w tool args (world_of s) in
      (c, process_output w tool args (world_of s),
       s\<lparr>trace := trace s @ [Exec tool args c],
         world_of := process_effect w tool args c (world_of s)\<rparr>))"

text \<open>A value in single quotes, as the messages print it.\<close>

definition quoted :: "string \<Rightarrow> string" where
  "quoted x = [CHR 0x27] @ x @ [CHR 0x27]"

text \<open>
  The error of \<open>@actions/exec\<close> for a non-zero exit code:
  \<open>The process '<path of the tool>' failed with exit code <code>\<close>.
\<close>

definition exit_error :: "world \<Rightarrow> string \<Rightarrow> int \<Rightarrow> string" where
  "exit_error w tool c =
     ''The process '' @ quoted (tool_path w tool) @ '' failed with exit code '' @ int_str c"

text \<open>
  \<open>exec(tool, args, { ignoreReturnCode })\<close> of \<open>@actions/exec\<close>: runs the process and
  returns its exit code; a non-zero code throws unless \<open>ignoreReturnCode\<close> is set.
\<close>

definition exec :: "world \<Rightarrow> string \<Rightarrow> string list \<Rightarrow> bool \<Rightarrow> int comp" where
  "exec w tool args ignoreReturnCode s =
     (case run_process w tool args s of
        (c, out, s1) \<Rightarrow>
          if c \<noteq> 0 \<and> \<not> ignoreReturnCode then (Inl (exit_error w tool c), s1)
          else (Inr c, s1))"

text \<open>\<open>exec\<close> with a \<open>stdout\<close> listener: the text the process printed.\<close>

definition exec_stdout :: "world \<Rightarrow> string \<Rightarrow> string list \<Rightarrow> string comp" where
  "exec_stdout w tool args s =
     (case run_process w tool args s of
        (c, out, s1) \<Rightarrow> if c \<noteq> 0 then (Inl (exit_error w tool c), s1) else (Inr out, s1))"

text \<open>
  Modelled from the spec: \<open>execWithLog\<close> and \<open>getExecOutput\<close> of
  \<open>shared/src/exec.js\<close> are not among the sources. The spec (7): a failure that is not
  one of the named recoverable ones is "fatal for that invocation: the run stops, reports
  the error message". So both run the process as \<open>exec\<close> does and throw on a non-zero
  exit code; \<open>getExecOutput\<close> returns the text printed.
\<close>

definition execWithLog :: "world \<Rightarrow> string \<Rightarrow> string list \<Rightarrow> unit comp" where
  "execWithLog w tool args = bnd (exec w tool args False) (\<lambda>c. ret ())"

definition getExecOutput :: "world \<Rightarrow> string \<Rightarrow> string list \<Rightarrow> string comp" where
  "getExecOutput w tool args = exec_stdout w tool args"

text \<open>
  \<open>execSync(line)\<close> of \<open>child_process\<close> runs the line through the shell and returns
  the text printed; on a non-zero exit code it throws \<open>Command failed: <line>\<close>, followed
  by what the process wrote to the standard error when that is not empty. The model is
  given the line and the words the shell hands to the program.
\<close>

definition execSync :: "world \<Rightarrow> string \<Rightarrow> string \<Rightarrow> string list \<Rightarrow> string comp" where
  "execSync w line tool args s =
     (case run_process w tool args s of
        (c, out, s1) \<Rightarrow>
          if c \<noteq> 0
          then (Inl (''Command failed: '' @ line @
                     (if stderr w tool args = [] then [] else CHR 0x0A # stderr w tool args)),
                s1)
          else (Inr out, s1))"

section \<open>Shared helpers\<close>

text \<open>
  \<open>isUpdateLspBranch\<close> (publish-release): the branch name is defined and matches
  \<open>/^update-lsp-/\<close>.
\<close>

definition isUpdateLspBranch :: "string option \<Rightarrow> bool" where
  "isUpdateLspBranch branchName =
     (case branchName of None \<Rightarrow> False | Some b \<Rightarrow> truthy b \<and> startsWith b ''update-lsp-'')"

text \<open>
  Modelled from the spec: \<open>findOpenLspUpdatePr\<close> of \<open>shared/src/github.js\<close> is not among
  the sources. The spec (4.5, step 1): "Locate the unique open in-flight PR (by the
  deterministic branch-name pattern \<open>update-lsp-*\<close>); if none, no-op". It asks the
  platform for the open pull requests and returns the first whose branch matches, or
  nothing.
\<close>

definition findOpenLspUpdatePr :: "world \<Rightarrow> pull option comp" where
  "findOpenLspUpdatePr w =
     bnd (api w FindOpenLspUpdatePr) (\<lambda>_.
     ret (find (\<lambda>p. isUpdateLspBranch (Some (pr_branch p))) (open_pulls w)))"

text \<open>
  Modelled from the spec: \<open>getLatestLspRelease\<close> of \<open>shared/src/github.js\<close> is not among
  the sources. The spec (4.1): "query upstream for the latest published Version"; the
  answer is an UpstreamRelease \<open>{ version, changelogBody }\<close>.
\<close>

definition getLatestLspRelease :: "world \<Rightarrow> upstream comp" where
  "getLatestLspRelease w = bnd (api w GetLatestLspRelease) (\<lambda>_. ret (latest_upstream w))"

text \<open>
  Modelled from the spec: \<open>readExtensionToml\<close> of \<open>shared/src/toml.js\<close> is not among
  the sources. The spec (6): the manifest is "a structured text file holding
  \<open>{ version, dependency_version }\<close>"; reading it can fail.
\<close>

definition readExtensionToml :: "world \<Rightarrow> manifest comp" where
  "readExtensionToml w = bnd (fs w ''readFile'' ''extension.toml'') (\<lambda>_. ret (toml w))"

text \<open>
  Modelled from the spec: \<open>getLspVersion\<close> of \<open>shared/src/toml.js\<close> is not among the
  sources. The spec (4.1, 6): the declared current version of the language server is the
  \<open>dependency_version\<close> field of the manifest.
\<close>

definition getLspVersion :: "manifest \<Rightarrow> string" where
  "getLspVersion m = lsp_required_version m"

text \<open>
  \<open>buildLsp(version, outputPath = 'lsp')\<close> (shared/src/lsp.ts): clone the tag into a
  fresh temporary directory, install, build, check \<open>dist\<close>, replace the output directory
  by it; the temporary directory is removed in every case. It returns the output path
  and its files, which must not be empty.
\<close>

definition buildLsp :: "world \<Rightarrow> string \<Rightarrow> string \<Rightarrow> (string \<times> string list) comp" where
  "buildLsp w version outputPath =
     (let tag = version; tempDir = tmp_dir w in
      bnd (fs w ''mkdtemp'' tempDir) (\<lambda>_.
      finally_do
        (bnd (execWithLog w ''git'' [''clone'', ''--depth'', ''1'', ''--branch'', tag,
                ''https://github.com/stylelint/vscode-stylelint.git'', tempDir]) (\<lambda>_.
         let packageJsonPath = tempDir @ ''/package.json'' in
         bnd (succeeds (fs w ''access'' packageJsonPath)) (\<lambda>found.
         if \<not> found then throw (''package.json not found in cloned repository at '' @ tag)
         else
         bnd (execWithLog w ''npm'' [''ci'']) (\<lambda>_.
         bnd (execWithLog w ''npm'' [''run'', ''build-bundle'']) (\<lambda>_.
         let distPath = tempDir @ ''/dist'' in
         bnd (succeeds (bnd (fs w ''stat'' distPath) (\<lambda>_.
                if \<not> is_directory w distPath then throw ''dist is not a directory''
                else ret ()))) (\<lambda>isDir.
         if \<not> isDir then throw (''dist directory not found after build at '' @ distPath)
         else
         bnd (fs w ''readdir'' distPath) (\<lambda>_.
         bnd (fs w ''rmRF'' outputPath) (\<lambda>_.
         bnd (fs w ''cp'' outputPath) (\<lambda>_.
         bnd (fs w ''readdir'' outputPath) (\<lambda>_.
         let lspFiles = dir_entries w outputPath in
         if length lspFiles = 0 then throw (''No files copied to '' @ outputPath @ ''/'')
         else ret (outputPath, lspFiles)))))))))))
        (fs w ''rmRF'' tempDir)))"

text \<open>The events of a build in which every step succeeds.\<close>

definition build_events :: "world \<Rightarrow> string \<Rightarrow> string \<Rightarrow> event list" where
  "build_events w version outputPath =
     [Fs ''mkdtemp'' (tmp_dir w),
      Exec ''git'' [''clone'', ''--depth'', ''1'', ''--branch'', version,
        ''https://github.com/stylelint/vscode-stylelint.git'', tmp_dir w] 0,
      Fs ''access'' (tmp_dir w @ ''/package.json''),
      Exec ''npm'' [''ci''] 0,
      Exec ''npm'' [''run'', ''build-bundle''] 0,
      Fs ''stat'' (tmp_dir w @ ''/dist''),
      Fs ''readdir'' (tmp_dir w @ ''/dist''),
      Fs ''rmRF'' outputPath,
      Fs ''cp'' outputPath,
      Fs ''readdir'' outputPath,
      Fs ''rmRF'' (tmp_dir w)]"

section \<open>The update path (update-lsp)\<close>

text \<open>
  \<open>checkForUpdate(octokit, owner, repo, manualVersion?)\<close>: \<open>null\<close> when an update pull
  request is open; the manual version when one is given (a truthy string); otherwise the
  declared version against the latest upstream release.
\<close>

definition checkForUpdate :: "world \<Rightarrow> string option \<Rightarrow> check option comp" where
  "checkForUpdate w manualVersion =
     bnd (findOpenLspUpdatePr w) (\<lambda>existingPr.
     if existingPr \<noteq> None then ret None
     else
       (case (case manualVersion of None \<Rightarrow> None | Some v \<Rightarrow> if truthy v then Some v else None) of
          Some v \<Rightarrow>
            ret (Some \<lparr>needed = True, c_version = v, changelog = ''Manual update to v'' @ v\<rparr>)
        | None \<Rightarrow>
            bnd (readExtensionToml w) (\<lambda>manifest.
            let currentVersion = getLspVersion manifest in
            bnd (getLatestLspRelease w) (\<lambda>latest.
            if u_version latest = currentVersion
            then ret (Some \<lparr>needed = False, c_version = currentVersion, changelog = []\<rparr>)
            else ret (Some \<lparr>needed = True, c_version = u_version latest,
                             changelog = u_body latest\<rparr>)))))"

text \<open>
  \<open>updateVersionFiles(version)\<close>: rewrites \<open>extension.toml\<close> and \<open>Cargo.toml\<close>, and
  \<open>src/config.rs\<close> when it can be accessed. The text that results from the
  substitutions is the one the outside world gives (\<open>written\<close>).
\<close>

definition updateVersionFiles :: "world \<Rightarrow> string \<Rightarrow> unit comp" where
  "updateVersionFiles w version =
     bnd (fs w ''readFile'' ''extension.toml'') (\<lambda>_.
     bnd (fs w ''writeFile'' ''extension.toml'') (\<lambda>_.
     bnd (fs w ''readFile'' ''Cargo.toml'') (\<lambda>_.
     bnd (fs w ''writeFile'' ''Cargo.toml'') (\<lambda>_.
     swallow
       (bnd (fs w ''access'' ''src/config.rs'') (\<lambda>_.
        bnd (fs w ''readFile'' ''src/config.rs'') (\<lambda>_.
        fs w ''writeFile'' ''src/config.rs'')))))))"

text \<open>The fixed title of the update commit and of the pull request.\<close>

definition commit_title :: "string \<Rightarrow> string" where
  "commit_title version = ''chore: update language server to v'' @ version"

text \<open>The paths that \<open>commitChanges\<close> stages.\<close>

definition update_paths :: "string list" where
  "update_paths = [''extension.toml'', ''Cargo.toml'', ''Cargo.lock'', ''src/config.rs'', ''lsp/'']"

text \<open>
  \<open>commitChanges(version)\<close>: sets the automation identity, stages the fixed paths
  (the exit code of \<open>git add\<close> is ignored), and commits when
  \<open>git diff --cached --quiet\<close> does not exit with 0. Returns whether it committed.
\<close>

definition commitChanges :: "world \<Rightarrow> string \<Rightarrow> bool comp" where
  "commitChanges w version =
     bnd (exec w ''git'' [''config'', ''user.name'', ''github-actions[bot]''] False) (\<lambda>_.
     bnd (exec w ''git'' [''config'', ''user.email'',
            ''github-actions[bot]@users.noreply.github.com''] False) (\<lambda>_.
     bnd (exec w ''git'' (''add'' # update_paths) True) (\<lambda>_.
     bnd (exec w ''git'' [''diff'', ''--cached'', ''--quiet''] True) (\<lambda>exitCode.
     if exitCode = 0 then ret False
     else
       bnd (exec w ''git'' [''commit'', ''-m'', commit_title version] False) (\<lambda>_.
       ret True)))))"

text \<open>The names of the bundle and of its checksum file.\<close>

definition tarball_name :: "string \<Rightarrow> string" where
  "tarball_name version = ''stylelint-language-server-v'' @ version @ ''.tar.gz''"

definition sha256_name :: "string \<Rightarrow> string" where
  "sha256_name version = ''stylelint-language-server-v'' @ version @ ''.sha256''"

text \<open>
  \<open>octokit.rest.repos.createRelease\<close>: when the platform accepts the request, the new
  entry (with the id and the url the platform gives it) is listed first.
\<close>

definition createRelease ::
  "world \<Rightarrow> string \<Rightarrow> string \<Rightarrow> string \<Rightarrow> bool \<Rightarrow> bool \<Rightarrow> release comp" where
  "createRelease w tag name body is_draft is_prerelease =
     bnd (api w (CreateRelease tag name body is_draft is_prerelease)) (\<lambda>_.
     let r = \<lparr>rel_id = new_release_id w, tag_name = tag, rel_name = name, rel_body = body,
              draft = is_draft, prerelease = is_prerelease, html_url = new_release_url w\<rparr> in
     bnd (modify_sys (\<lambda>y. y\<lparr>releases := r # releases y\<rparr>)) (\<lambda>_.
     ret r))"

definition uploadReleaseAsset :: "world \<Rightarrow> int \<Rightarrow> string \<Rightarrow> unit comp" where
  "uploadReleaseAsset w release_id name = api w (UploadReleaseAsset release_id name)"

definition prerelease_body :: "string \<Rightarrow> string" where
  "prerelease_body version =
     ''Prerelease for LSP v'' @ version @ [CHR 0x0A, CHR 0x0A] @
     ''This is a prerelease created for testing. It will be promoted to a full release when the update PR is merged.''"

text \<open>
  \<open>createPrerelease(octokit, owner, repo, version)\<close>: packages \<open>lsp/\<close>, writes the
  checksum file, creates a release entry flagged prerelease for the tag, uploads both
  files, removes them, and returns the entry's id and url.
\<close>

definition createPrerelease :: "world \<Rightarrow> string \<Rightarrow> (int \<times> string) comp" where
  "createPrerelease w version =
     (let tarballName = tarball_name version; sha256Name = sha256_name version in
      bnd (execWithLog w ''tar'' [''-czf'', tarballName, ''lsp/'']) (\<lambda>_.
      bnd (fs w ''readFile'' tarballName) (\<lambda>_.
      bnd (fs w ''writeFile'' sha256Name) (\<lambda>_.
      bnd (createRelease w version (''v'' @ version) (prerelease_body version) False True)
        (\<lambda>release.
      bnd (uploadReleaseAsset w (rel_id release) tarballName) (\<lambda>_.
      bnd (fs w ''readFile'' sha256Name) (\<lambda>_.
      bnd (uploadReleaseAsset w (rel_id release) sha256Name) (\<lambda>_.
      bnd (execWithLog w ''rm'' [''-f'', tarballName, sha256Name]) (\<lambda>_.
      ret (rel_id release, html_url release))))))))))"

text \<open>The description of the pull request (a template literal of the source).\<close>

definition pr_body :: "string \<Rightarrow> string \<Rightarrow> string \<Rightarrow> string" where
  "pr_body version changes releaseUrl =
     ''## Update Language Server to v'' @ version @ [CHR 0x0A, CHR 0x0A] @
     ''Updates the vscode-stylelint language server to v'' @ version @ ''.'' @ [CHR 0x0A, CHR 0x0A] @
     ''### Changes from upstream'' @ [CHR 0x0A, CHR 0x0A] @
     changes @ [CHR 0x0A, CHR 0x0A] @
     ''### Prerelease'' @ [CHR 0x0A, CHR 0x0A] @
     ''A [prerelease]('' @ releaseUrl @ '') has been created with the LSP assets attached.'' @ [CHR 0x0A] @
     ''You can test the extension by installing it from this prerelease.'' @ [CHR 0x0A, CHR 0x0A] @
     ''---'' @ [CHR 0x0A] @
     ''*This PR was automatically created by the Update LSP workflow.*''"

text \<open>
  \<open>createPullRequest(octokit, owner, repo, version, changelog, releaseUrl)\<close>: pushes the
  branch \<open>update-lsp-<version>\<close> (with force when it exists), then updates the open pull
  request of that branch or creates one. Returns its number and url.
\<close>

definition createPullRequest ::
  "world \<Rightarrow> string \<Rightarrow> string \<Rightarrow> string \<Rightarrow> (int \<times> string) comp" where
  "createPullRequest w version changes releaseUrl =
     (let branch = ''update-lsp-'' @ version in
      bnd (succeeds (api w (GetRef (''heads/'' @ branch)))) (\<lambda>branchExists.
      bnd (if branchExists
           then bnd (exec w ''git'' [''push'', ''origin'', ''HEAD:'' @ branch, ''--force''] False)
                  (\<lambda>_. ret ())
           else bnd (exec w ''git'' [''checkout'', ''-b'', branch] False) (\<lambda>_.
                bnd (exec w ''git'' [''push'', ''origin'', branch] False) (\<lambda>_. ret ()))) (\<lambda>_.
      let body = pr_body version changes releaseUrl in
      bnd (api w (PullsList branch)) (\<lambda>_.
      case pulls_for w branch of
        pr # others \<Rightarrow>
          bnd (api w (PullsUpdate (pr_number pr) (commit_title version) body)) (\<lambda>_.
          ret (pr_number pr, pull_url w (pr_number pr)))
      | [] \<Rightarrow>
          bnd (api w (PullsCreate (commit_title version) body branch)) (\<lambda>_.
          ret (new_pull_number w, pull_url w (new_pull_number w)))))))"

text \<open>
  \<open>run\<close> of update-lsp. The steps that follow the check when an update is needed are
  named \<open>update_steps\<close>.
\<close>

definition update_steps :: "world \<Rightarrow> check \<Rightarrow> unit comp" where
  "update_steps w c =
     (let version = c_version c in
      bnd (buildLsp w version ''lsp'') (\<lambda>_.
      bnd (updateVersionFiles w version) (\<lambda>_.
      bnd (commitChanges w version) (\<lambda>_.
      bnd (createPrerelease w version) (\<lambda>release.
      bnd (createPullRequest w version (changelog c) (snd release)) (\<lambda>pr.
      bnd (setOutput ''updated'' ''true'') (\<lambda>_.
      bnd (setOutput ''version'' version) (\<lambda>_.
      bnd (setOutput ''pr-number'' (int_str (fst pr))) (\<lambda>_.
      bnd (setOutput ''pr-url'' (snd pr)) (\<lambda>_.
      setOutput ''release-url'' (snd release)))))))))))"

definition run_update_lsp :: "world \<Rightarrow> run_state \<Rightarrow> run_state" where
  "run_update_lsp w =
     run_main
      (bnd (getInput w ''github-token'' True) (\<lambda>token.
       bnd (getInput w ''version'' False) (\<lambda>v.
       let manualVersion = (if truthy v then Some v else None) in
       bnd (checkForUpdate w manualVersion) (\<lambda>chk.
       case chk of
         None \<Rightarrow> setOutput ''updated'' ''false''
       | Some c \<Rightarrow>
           if \<not> needed c then
             bnd (setOutput ''updated'' ''false'') (\<lambda>_.
             setOutput ''version'' (c_version c))
           else update_steps w c))))"

section \<open>The Change Committer of build-lsp\<close>

text \<open>
  \<open>run\<close> of build-lsp: builds, sets the identity given by the inputs, stages the built
  directory, and commits when \<open>git status --porcelain <path>\<close> prints something.
\<close>

definition run_build_lsp :: "world \<Rightarrow> run_state \<Rightarrow> run_state" where
  "run_build_lsp w =
     run_main
      (bnd (getInput w ''version'' True) (\<lambda>version.
       bnd (getInput w ''git-user-name'' False) (\<lambda>gitUserName.
       bnd (getInput w ''git-user-email'' False) (\<lambda>gitUserEmail.
       bnd (buildLsp w version ''lsp'') (\<lambda>built.
       let lspPath = fst built in
       bnd (execWithLog w ''git'' [''config'', ''user.name'', gitUserName]) (\<lambda>_.
       bnd (execWithLog w ''git'' [''config'', ''user.email'', gitUserEmail]) (\<lambda>_.
       bnd (execWithLog w ''git'' [''add'', lspPath]) (\<lambda>_.
       bnd (getExecOutput w ''git'' [''status'', ''--porcelain'', lspPath]) (\<lambda>gitStatus.
       bnd (if \<not> truthy gitStatus then setOutput ''committed'' ''false''
            else
              bnd (execWithLog w ''git''
                     [''commit'',
                      ''-m'', commit_title version,
                      ''-m'', ''Update vscode-stylelint language server to v'' @ version,
                      ''-m'', ''Built from https://github.com/stylelint/vscode-stylelint'']) (\<lambda>_.
              setOutput ''committed'' ''true'')) (\<lambda>_.
       setOutput ''lsp-path'' lspPath))))))))))"

section \<open>The Rebase Keeper\<close>

text \<open>The two messages of the Rebase Keeper (the dash of the first is U+2014, in UTF-8).\<close>

definition rebase_conflict_msg :: string where
  "rebase_conflict_msg =
     ''Rebase failed due to conflicts '' @ [CHR 0xE2, CHR 0x80, CHR 0x94] @
     '' manual intervention needed''"

definition push_failed_msg :: string where
  "push_failed_msg = ''Failed to push rebased branch - branch may have been updated''"

text \<open>
  \<open>run\<close> of the Rebase Keeper: identity, fetch of \<open>main\<close>, lookup of the open update pull
  request, comparison of the merge base with the tip of \<open>origin/main\<close>, rebase, push with
  lease. Its \<open>catch\<close> also sets the outputs \<open>rebased\<close> and \<open>error\<close>.
\<close>

definition rebase_body :: "world \<Rightarrow> unit comp" where
  "rebase_body w =
     bnd (getInput w ''github-token'' True) (\<lambda>token.
     bnd (exec w ''git'' [''config'', ''user.name'', ''github-actions[bot]''] False) (\<lambda>_.
     bnd (exec w ''git'' [''config'', ''user.email'',
            ''github-actions[bot]@users.noreply.github.com''] False) (\<lambda>_.
     bnd (exec w ''git'' [''fetch'', ''origin'', ''main''] False) (\<lambda>_.
     bnd (findOpenLspUpdatePr w) (\<lambda>found.
     case found of
       None \<Rightarrow>
         bnd (setOutput ''found'' ''false'') (\<lambda>_.
         setOutput ''rebased'' ''false'')
     | Some pr \<Rightarrow>
         bnd (setOutput ''found'' ''true'') (\<lambda>_.
         bnd (setOutput ''pr-number'' (int_str (pr_number pr))) (\<lambda>_.
         bnd (setOutput ''branch'' (pr_branch pr)) (\<lambda>_.
         bnd (exec_stdout w ''git'' [''rev-parse'', ''origin/main'']) (\<lambda>out1.
         let mainHead = trim out1 in
         bnd (exec_stdout w ''git'' [''merge-base'', pr_headSha pr, mainHead]) (\<lambda>out2.
         let mergeBase = trim out2 in
         if mergeBase = mainHead then setOutput ''rebased'' ''false''
         else
           bnd (exec w ''git'' [''rebase'', ''origin/main'', pr_headSha pr] True)
             (\<lambda>rebaseExitCode.
           if rebaseExitCode \<noteq> 0 then
             bnd (exec w ''git'' [''rebase'', ''--abort''] True) (\<lambda>_.
             bnd (warning rebase_conflict_msg) (\<lambda>_.
             bnd (setOutput ''rebased'' ''false'') (\<lambda>_.
             setOutput ''error'' rebase_conflict_msg)))
           else
             bnd (exec w ''git'' [''push'', ''--force-with-lease'', ''origin'',
                    ''HEAD:'' @ pr_branch pr] True) (\<lambda>pushExitCode.
             if pushExitCode \<noteq> 0 then
               bnd (warning push_failed_msg) (\<lambda>_.
               bnd (setOutput ''rebased'' ''false'') (\<lambda>_.
               setOutput ''error'' push_failed_msg))
             else
               bnd (setOutput ''rebased'' ''true'') (\<lambda>_.
               setOutput ''error'' [])))))))))))))"

definition run_rebase :: "world \<Rightarrow> run_state \<Rightarrow> run_state" where
  "run_rebase w s =
     (case rebase_body w s of
        (Inl errorMsg, s') \<Rightarrow>
          snd (bnd (setFailed errorMsg) (\<lambda>_.
               bnd (setOutput ''rebased'' ''false'') (\<lambda>_.
               setOutput ''error'' errorMsg)) s')
      | (Inr u, s') \<Rightarrow> s')"

section \<open>The promote path (publish-release)\<close>

text \<open>\<open>try { m } catch (e) { h(e) }\<close>.\<close>

definition try_catch :: "'a comp \<Rightarrow> (string \<Rightarrow> 'a comp) \<Rightarrow> 'a comp" where
  "try_catch m h s = (case m s of (Inl e, s') \<Rightarrow> h e s' | (Inr x, s') \<Rightarrow> (Inr x, s'))"

text \<open>The \<open>Prerelease\<close> interface: \<open>{ id, tag }\<close>.\<close>

record prerelease_ref =
  p_id :: int
  p_tag :: string

text \<open>
  \<open>octokit.rest.repos.listReleases({ per_page: 100 })\<close>: the first hundred entries.
\<close>

definition listReleases :: "world \<Rightarrow> release list comp" where
  "listReleases w =
     bnd (api w ListReleases) (\<lambda>_ s. (Inr (take 100 (releases (world_of s))), s))"

text \<open>
  \<open>findPrerelease(octokit, owner, repo, version)\<close>: the first listed entry that is a
  prerelease or a draft and whose tag is the version.
\<close>

definition findPrerelease :: "world \<Rightarrow> string \<Rightarrow> prerelease_ref option comp" where
  "findPrerelease w version =
     bnd (listReleases w) (\<lambda>rels.
     case find (\<lambda>r. (prerelease r \<or> draft r) \<and> tag_name r = version) rels of
       None \<Rightarrow> ret None
     | Some r \<Rightarrow> ret (Some \<lparr>p_id = rel_id r, p_tag = tag_name r\<rparr>))"

text \<open>\<open>changelog.split('\n')\<close> and \<open>bodyLines.join('\n')\<close>.\<close>

fun split_lines :: "string \<Rightarrow> string list" where
  "split_lines [] = [ [] ]"
| "split_lines (c # cs) =
     (if c = CHR 0x0A then [] # split_lines cs
      else (case split_lines cs of l # ls \<Rightarrow> (c # l) # ls | [] \<Rightarrow> [ [c] ]))"

fun join_lines :: "string list \<Rightarrow> string" where
  "join_lines [] = []"
| "join_lines [l] = l"
| "join_lines (l # ls) = l @ [CHR 0x0A] @ join_lines ls"

text \<open>
  The loop of \<open>getReleaseBody\<close>: a line that matches \<open>/^## \[?v?/\<close> (it starts with
  \<open>## \<close>) opens the section, the next such line ends it, and at most 20 lines are kept.
\<close>

fun body_lines :: "string list \<Rightarrow> bool \<Rightarrow> string list \<Rightarrow> string list" where
  "body_lines [] inSection bodyLines = bodyLines"
| "body_lines (line # rest) inSection bodyLines =
     (if startsWith line ''## '' then
        (if inSection then bodyLines else body_lines rest True bodyLines)
      else if inSection then
        (if length (bodyLines @ [line]) \<ge> 20 then bodyLines @ [line]
         else body_lines rest inSection (bodyLines @ [line]))
      else body_lines rest inSection bodyLines)"

text \<open>
  \<open>getReleaseBody(version)\<close>: the first section of \<open>CHANGELOG.md\<close>, trimmed, or
  \<open>Release v<version>\<close> when it is empty or the file cannot be read. The text taken
  from the changelog is named \<open>first_section\<close>.
\<close>

definition first_section :: "string \<Rightarrow> string" where
  "first_section text = trim (join_lines (body_lines (split_lines text) False []))"

definition getReleaseBody :: "world \<Rightarrow> string \<Rightarrow> string comp" where
  "getReleaseBody w version =
     try_catch
       (bnd (fs w ''readFile'' ''CHANGELOG.md'') (\<lambda>_.
        let body = first_section (file_text w ''CHANGELOG.md'')
        in ret (if truthy body then body else ''Release v'' @ version)))
       (\<lambda>e. ret (''Release v'' @ version))"

text \<open>
  \<open>octokit.rest.repos.updateRelease\<close>: when the platform accepts the request, the
  entry with that id gets the new name, body and flags; an unknown id is an error.
\<close>

definition updateRelease ::
  "world \<Rightarrow> int \<Rightarrow> string \<Rightarrow> string \<Rightarrow> bool \<Rightarrow> bool \<Rightarrow> release comp" where
  "updateRelease w release_id name body is_draft is_prerelease =
     bnd (api w (UpdateRelease release_id name body is_draft is_prerelease)) (\<lambda>_ s.
     case find (\<lambda>r. rel_id r = release_id) (releases (world_of s)) of
       None \<Rightarrow> (Inl ''Not Found'', s)
     | Some r \<Rightarrow>
         (let r' = r\<lparr>rel_name := name, rel_body := body, draft := is_draft,
                      prerelease := is_prerelease\<rparr>
          in (Inr r',
              s\<lparr>world_of := (world_of s)\<lparr>releases :=
                   map (\<lambda>x. if rel_id x = release_id then r' else x)
                     (releases (world_of s))\<rparr>\<rparr>)))"

text \<open>\<open>promotePrerelease\<close>: the entry becomes a full release.\<close>

definition promotePrerelease ::
  "world \<Rightarrow> int \<Rightarrow> string \<Rightarrow> string \<Rightarrow> (int \<times> string) comp" where
  "promotePrerelease w releaseId version body =
     bnd (updateRelease w releaseId (''v'' @ version) body False False) (\<lambda>release.
     ret (rel_id release, html_url release))"

text \<open>
  \<open>createReleaseFromScratch(octokit, owner, repo, version, lspVersion, body)\<close>: builds
  the language server, packages it, creates a full release for the tag, uploads both
  files and removes them and the built directory.
\<close>

definition createReleaseFromScratch ::
  "world \<Rightarrow> string \<Rightarrow> string \<Rightarrow> string \<Rightarrow> (int \<times> string) comp" where
  "createReleaseFromScratch w version lspVersion body =
     bnd (buildLsp w lspVersion ''lsp'') (\<lambda>_.
     let tarName = tarball_name lspVersion in
     bnd (execSync w (''tar -czf '' @ [CHR 0x22] @ tarName @ [CHR 0x22] @ '' lsp/'')
            ''tar'' [''-czf'', tarName, ''lsp/'']) (\<lambda>_.
     let shaName = sha256_name lspVersion in
     bnd (execSync w (''sha256sum '' @ [CHR 0x22] @ tarName @ [CHR 0x22])
            ''sha256sum'' [tarName]) (\<lambda>shaOutput.
     bnd (fs w ''writeFile'' shaName) (\<lambda>_.
     bnd (createRelease w version (''v'' @ version) body False False) (\<lambda>release.
     bnd (fs w ''readFile'' tarName) (\<lambda>_.
     bnd (uploadReleaseAsset w (rel_id release) tarName) (\<lambda>_.
     bnd (fs w ''readFile'' shaName) (\<lambda>_.
     bnd (uploadReleaseAsset w (rel_id release) shaName) (\<lambda>_.
     bnd (fs w ''rm'' tarName) (\<lambda>_.
     bnd (fs w ''rm'' shaName) (\<lambda>_.
     bnd (fs w ''rm'' ''lsp'') (\<lambda>_.
     ret (rel_id release, html_url release)))))))))))))"

text \<open>The judgement of the Commit Verifier: \<open>{ isValid, message }\<close>.\<close>

record verification =
  isValid :: bool
  v_message :: string

text \<open>A value in a template literal: \<open>undefined\<close> prints as that word.\<close>

definition render :: "string option \<Rightarrow> string" where
  "render v = (case v of None \<Rightarrow> ''undefined'' | Some x \<Rightarrow> x)"

text \<open>
  \<open>verifyLspUpdateCommit(octokit, owner, repo, sha)\<close>: the author must be
  \<open>github-actions[bot]\<close> and the message must start with the fixed template.
\<close>

definition verifyLspUpdateCommit :: "world \<Rightarrow> string \<Rightarrow> verification comp" where
  "verifyLspUpdateCommit w sha =
     bnd (api w (GetCommit sha)) (\<lambda>_.
     let author = author_name (commit_at w sha);
         msg = message (commit_at w sha) in
     if author \<noteq> Some ''github-actions[bot]'' then
       ret \<lparr>isValid = False,
            v_message = ''Skipping: Commit author is '' @ quoted (render author) @
                        '', expected '' @ quoted ''github-actions[bot]''\<rparr>
     else if \<not> startsWith msg ''chore: update language server to'' then
       ret \<lparr>isValid = False,
            v_message = ''Skipping: Commit message doesn't match LSP update pattern''\<rparr>
     else ret \<lparr>isValid = True, v_message = ''Commit verified as LSP update''\<rparr>)"

text \<open>
  \<open>run\<close> of publish-release, gated by the Commit Verifier
  (\<open>publish-release/index.ts\<close>): a commit that is not verified, or a version with no
  prerelease or draft, ends the run with \<open>skipped\<close> and a \<open>reason\<close>.
\<close>

definition run_publish_release :: "world \<Rightarrow> run_state \<Rightarrow> run_state" where
  "run_publish_release w =
     run_main
      (bnd (getInput w ''github-token'' True) (\<lambda>token.
       let sha = context_sha w in
       bnd (verifyLspUpdateCommit w sha) (\<lambda>verification.
       if \<not> isValid verification then
         bnd (setOutput ''skipped'' ''true'') (\<lambda>_.
         setOutput ''reason'' (v_message verification))
       else
         bnd (readExtensionToml w) (\<lambda>extensionToml.
         let version = m_version extensionToml;
             lspVersion = getLspVersion extensionToml in
         bnd (findPrerelease w version) (\<lambda>found.
         case found of
           None \<Rightarrow>
             bnd (setOutput ''skipped'' ''true'') (\<lambda>_.
             setOutput ''reason'' ''No prerelease found for this version'')
         | Some pre \<Rightarrow>
             bnd (getReleaseBody w version) (\<lambda>body.
             bnd (promotePrerelease w (p_id pre) version body) (\<lambda>result.
             bnd (setOutput ''skipped'' ''false'') (\<lambda>_.
             bnd (setOutput ''promoted'' ''true'') (\<lambda>_.
             bnd (setOutput ''release-id'' (int_str (fst result))) (\<lambda>_.
             setOutput ''release-url'' (snd result)))))))))))"

text \<open>
  \<open>run\<close> of the publisher that has no Commit Verifier (the source file that defines
  and calls \<open>createReleaseFromScratch\<close>): it promotes the prerelease found, or builds
  and publishes from scratch.
\<close>

definition run_publish_or_build :: "world \<Rightarrow> run_state \<Rightarrow> run_state" where
  "run_publish_or_build w =
     run_main
      (bnd (getInput w ''github-token'' True) (\<lambda>token.
       bnd (readExtensionToml w) (\<lambda>extensionToml.
       let version = m_version extensionToml;
           lspVersion = getLspVersion extensionToml in
       bnd (getReleaseBody w version) (\<lambda>body.
       bnd (findPrerelease w version) (\<lambda>found.
       bnd (case found of
              Some pre \<Rightarrow>
                bnd (promotePrerelease w (p_id pre) version body) (\<lambda>result.
                ret (result, True))
            | None \<Rightarrow>
                bnd (createReleaseFromScratch w version lspVersion body) (\<lambda>result.
                ret (result, False))) (\<lambda>(result, promoted).
       bnd (setOutput ''release-id'' (int_str (fst result))) (\<lambda>_.
       bnd (setOutput ''release-url'' (snd result)) (\<lambda>_.
       setOutput ''promoted'' (if promoted then ''true'' else ''false'')))))))))"

section \<open>Concrete worlds\<close>

text \<open>
  A world in which every process, request and file-system call succeeds: the declared
  version is 1.2.0, upstream has 1.3.0, no pull request is open, the commit at hand is a
  machine-made version bump, and the platform gives the next release the id 8.
\<close>

definition quiet :: world where
  "quiet =
     \<lparr>exit_code = (\<lambda>tool args. 0),
      stdout = (\<lambda>tool args. []),
      api_fail = (\<lambda>r. None),
      fs_fail = (\<lambda>op path. None),
      input = (\<lambda>name. if name = ''github-token'' then ''t0ken'' else []),
      open_pulls = [],
      toml = \<lparr>m_version = ''1.2.0'', lsp_required_version = ''1.2.0''\<rparr>,
      latest_upstream = \<lparr>u_version = ''1.3.0'', u_body = ''notes''\<rparr>,
      commit_at = (\<lambda>sha. \<lparr>author_name = Some ''github-actions[bot]'',
                           message = ''chore: update language server to v1.3.0''\<rparr>),
      new_release_id = 8,
      new_release_url = ''https://example.test/releases/8'',
      file_text = (\<lambda>path. []),
      tmp_dir = ''/tmp/vscode-stylelint-abc'',
      dir_entries = (\<lambda>path. [''server.js'']),
      is_directory = (\<lambda>path. True),
      pulls_for = (\<lambda>branch. []),
      pull_url = (\<lambda>n. ''https://example.test/pull''),
      new_pull_number = 5,
      head_sha = ''c0ffee'',
      context_sha = ''abc123'',
      stderr = (\<lambda>tool args. []),
      written = (\<lambda>path. ''1.3.0 in '' @ path),
      dist_files = [(''server.js'', ''bundle 1.3.0'')],
      leaves_output = (\<lambda>tool args. False),
      rebased = (\<lambda>args c trees. trees),
      tool_path = (\<lambda>tool. ''/usr/bin/'' @ tool)\<rparr>"

text \<open>An outside world with no file, no release and no ref, and the start of a run.\<close>

definition no_sys :: sys where
  "no_sys = \<lparr>releases = [], remote_refs = (\<lambda>b. None), tracking = (\<lambda>b. None),
             commit_log = [], head_tree = [], index_tree = [], work_tree = []\<rparr>"

definition start :: "sys \<Rightarrow> run_state" where
  "start y = \<lparr>trace = [], outputs = [], warnings = [], failed = None, world_of = y\<rparr>"

text \<open>An open update pull request, and the quiet world with it.\<close>

definition pr4 :: pull where
  "pr4 = \<lparr>pr_number = 4, pr_branch = ''update-lsp-1.3.0'', pr_headSha = ''aaa''\<rparr>"

definition in_flight :: world where
  "in_flight = quiet\<lparr>open_pulls := [pr4]\<rparr>"


text \<open>
  The quiet world at a commit of the automation whose message is not the template, and at
  a commit of a person.
\<close>

definition bot_fix_typo :: world where
  "bot_fix_typo =
     quiet\<lparr>commit_at := (\<lambda>sha. \<lparr>author_name = Some ''github-actions[bot]'',
                                   message = ''fix: typo''\<rparr>)\<rparr>"

definition human_commit :: world where
  "human_commit =
     quiet\<lparr>commit_at := (\<lambda>sha. \<lparr>author_name = Some ''Ada'', message = ''fix: typo''\<rparr>)\<rparr>"

text \<open>Whether an event is a \<open>git push\<close>, and whether it is a \<open>git rebase\<close>.\<close>

fun is_push :: "event \<Rightarrow> bool" where
  "is_push (Exec tool args c) = (tool = ''git'' \<and> take 1 args = [''push''])"
| "is_push e = False"

fun is_rebase :: "event \<Rightarrow> bool" where
  "is_rebase (Exec tool args c) = (tool = ''git'' \<and> take 1 args = [''rebase''])"
| "is_rebase e = False"

text \<open>
  A world in which the pull request 4 is open, \<open>origin/main\<close> is at \<open>bbb\<close>, the merge
  base is \<open>a00\<close>, and every \<open>git rebase\<close> exits with 1.
\<close>

definition conflict :: world where
  "conflict =
     quiet\<lparr>open_pulls := [pr4],
           stdout := (\<lambda>tool args. if args = [''rev-parse'', ''origin/main'']
                                   then ''bbb'' @ [CHR 0x0A] else ''a00'' @ [CHR 0x0A]),
           exit_code := (\<lambda>tool args. if take 1 args = [''rebase''] then 1 else 0)\<rparr>"

text \<open>
  A world in which the pull request 4 is open and both the tip of \<open>origin/main\<close> and the
  merge base are \<open>bbb\<close>; and a repository whose hosted \<open>main\<close> is at \<open>bbb\<close> while the
  local remote-tracking ref \<open>origin/main\<close> is still at \<open>b00\<close>.
\<close>

definition up_to_date :: world where
  "up_to_date = quiet\<lparr>open_pulls := [pr4], stdout := (\<lambda>tool args. ''bbb'' @ [CHR 0x0A])\<rparr>"

definition stale_sys :: sys where
  "stale_sys =
     no_sys\<lparr>remote_refs := (\<lambda>b. if b = ''main'' then Some ''bbb''
                                else if b = ''update-lsp-1.3.0'' then Some ''aaa'' else None),
            tracking := (\<lambda>r. if r = ''origin/main'' then Some ''b00'' else None)\<rparr>"

text \<open>
  A clean checkout at the declared version 1.2.0 (\<open>HEAD\<close>, index and work tree agree),
  and the same checkout of a repository that has no \<open>src/config.rs\<close>.
\<close>

definition checkout :: tree where
  "checkout =
     [(''extension.toml'', ''1.2.0 in extension.toml''),
      (''Cargo.toml'', ''1.2.0 in Cargo.toml''),
      (''Cargo.lock'', ''lock''),
      (''src/config.rs'', ''1.2.0 in src/config.rs''),
      (''lsp/server.js'', ''bundle 1.2.0'')]"

definition repo :: sys where
  "repo = no_sys\<lparr>head_tree := checkout, index_tree := checkout, work_tree := checkout\<rparr>"

definition checkout_no_config :: tree where
  "checkout_no_config = filter (\<lambda>e. fst e \<noteq> ''src/config.rs'') checkout"

definition repo_no_config :: sys where
  "repo_no_config =
     no_sys\<lparr>head_tree := checkout_no_config, index_tree := checkout_no_config,
            work_tree := checkout_no_config\<rparr>"

text \<open>The quiet world in which \<open>src/config.rs\<close> cannot be accessed: there is no such file.\<close>

definition no_config :: world where
  "no_config =
     quiet\<lparr>fs_fail := (\<lambda>op path. if path = ''src/config.rs''
                                  then Some ''ENOENT: no such file or directory'' else None)\<rparr>"

text \<open>
  A platform on which the tag 1.3.0 already has the prerelease 7; the quiet world on a
  platform that refuses to create a release; and the quiet world on a platform where
  every upload of an asset fails.
\<close>

definition rel7 :: release where
  "rel7 = \<lparr>rel_id = 7, tag_name = ''1.3.0'', rel_name = ''v1.3.0'',
           rel_body = ''Prerelease for LSP v1.3.0'', draft = False, prerelease = True,
           html_url = ''https://example.test/releases/7''\<rparr>"

definition with_prerelease :: sys where
  "with_prerelease = no_sys\<lparr>releases := [rel7]\<rparr>"

definition rejecting :: world where
  "rejecting =
     quiet\<lparr>api_fail := (\<lambda>r. case r of
                CreateRelease tag name body d p \<Rightarrow> Some ''Validation Failed: already_exists''
              | _ \<Rightarrow> None)\<rparr>"

definition upload_fails :: world where
  "upload_fails =
     quiet\<lparr>api_fail := (\<lambda>r. case r of
                UploadReleaseAsset release_id name \<Rightarrow> Some ''upload failed''
              | _ \<Rightarrow> None)\<rparr>"

section \<open>Basic facts\<close>

lemmas comp_defs = ret_def throw_def bnd_def emit_def setOutput_def warning_def
  setFailed_def modify_sys_def api_def fs_def swallow_def succeeds_def finally_do_def
  run_main_def try_catch_def output_of_def Let_def

lemma startsWith_append: "startsWith (p @ s) p"
  by (induction p) auto

lemma startsWith_nonempty: "startsWith b (c # cs) \<Longrightarrow> b \<noteq> []"
  by (cases b) auto

lemma find_update_branch:
  assumes "p \<in> set ps" and "startsWith (pr_branch p) ''update-lsp-''"
  shows "find (\<lambda>p. isUpdateLspBranch (Some (pr_branch p))) ps \<noteq> None"
proof -
  have "pr_branch p \<noteq> []" using assms(2) by (rule startsWith_nonempty)
  then have "isUpdateLspBranch (Some (pr_branch p))"
    using assms(2) by (simp add: isUpdateLspBranch_def truthy_def)
  with assms(1) show ?thesis by (auto simp: find_None_iff)
qed

lemma find_no_update_branch:
  assumes "\<forall>p \<in> set ps. \<not> startsWith (pr_branch p) ''update-lsp-''"
  shows "find (\<lambda>p. isUpdateLspBranch (Some (pr_branch p))) ps = None"
  using assms by (auto simp: find_None_iff isUpdateLspBranch_def)

lemma trim_empty: "trim [] = []"
  by code_simp


lemma trim_line:
  "trim [CHR ''b'', CHR ''b'', CHR ''b'', CHR 0x0A] = ''bbb''"
  "trim [CHR ''a'', CHR ''0'', CHR ''0'', CHR 0x0A] = ''a00''"
  by code_simp+

text \<open>
  White space outside ASCII is stripped as well: a no-break space before the version and
  a paragraph separator after it, and an input that is a no-break space alone is empty.
\<close>

lemma trim_unicode:
  "trim ([CHR 0xC2, CHR 0xA0] @ ''1.2.0'' @ [CHR 0xE2, CHR 0x80, CHR 0xA9, CHR 0x20]) = ''1.2.0''"
  by code_simp

lemma trim_no_break_space: "trim [CHR 0xC2, CHR 0xA0] = []"
  by code_simp

lemma run_main_failed:
  assumes "fst (body s) = Inl msg"
  shows "run_main body s = (snd (body s))\<lparr>failed := Some msg\<rparr>"
  using assms by (cases "body s") (auto simp: run_main_def setFailed_def)

section \<open>Effects of file-system calls and processes\<close>

lemma map_of_put_file:
  "map_of (put_file p c t) q = (if q = p then Some c else map_of t q)"
  by (induction t) (auto simp: put_file_def)

lemma changed_paths_same: "changed_paths a a = []"
  by (simp add: changed_paths_def)


lemma fs_effect_read:
  "op \<notin> set [''writeFile'', ''cp'', ''rm'', ''rmRF''] \<Longrightarrow> fs_effect w op path y = y"
  by (simp add: fs_effect_def)

lemma fs_effect_frame [simp]:
  "releases (fs_effect w op path y) = releases y"
  "remote_refs (fs_effect w op path y) = remote_refs y"
  "tracking (fs_effect w op path y) = tracking y"
  "commit_log (fs_effect w op path y) = commit_log y"
  "head_tree (fs_effect w op path y) = head_tree y"
  "index_tree (fs_effect w op path y) = index_tree y"
  by (simp_all add: fs_effect_def)

lemma cmd_effect_releases [simp]: "releases (cmd_effect w tool args y) = releases y"
  by (simp add: cmd_effect_def split: list.splits option.splits prod.splits)

lemma move_head_frame [simp]:
  "releases (move_head w args c y) = releases y"
  "remote_refs (move_head w args c y) = remote_refs y"
  "tracking (move_head w args c y) = tracking y"
  "commit_log (move_head w args c y) = commit_log y"
  by (simp_all add: move_head_def split: prod.splits)

lemma process_effect_releases [simp]:
  "releases (process_effect w tool args c y) = releases y"
  by (simp add: process_effect_def)

lemma effect_git_other:
  "sub \<notin> set [''fetch'', ''push'', ''add'', ''commit''] \<Longrightarrow>
   cmd_effect w ''git'' (sub # rest) y = y"
  by (simp add: cmd_effect_def)

lemma effect_other:
  "tool \<notin> set [''git'', ''tar'', ''rm''] \<Longrightarrow> cmd_effect w tool args y = y"
  by (simp add: cmd_effect_def)

lemma effect_fetch:
  "cmd_effect w ''git'' [''fetch'', remote, b] y =
     y\<lparr>tracking := (tracking y)(remote @ ''/'' @ b := remote_refs y b)\<rparr>"
  by (simp add: cmd_effect_def)

lemma effect_commit:
  "cmd_effect w ''git'' (''commit'' # rest) y =
     y\<lparr>commit_log := commit_log y @ [messages_of rest], head_tree := index_tree y\<rparr>"
  by (simp add: cmd_effect_def)

lemma effect_add:
  "cmd_effect w ''git'' (''add'' # rest) y =
     y\<lparr>index_tree := stage rest (work_tree y) (index_tree y)\<rparr>"
  by (simp add: cmd_effect_def)

lemma effect_tar:
  "cmd_effect w ''tar'' [opt, name, dir] y =
     y\<lparr>work_tree := put_file name (written w name) (work_tree y)\<rparr>"
  by (simp add: cmd_effect_def)


lemma process_exit_tool:
  "tool \<noteq> ''git'' \<Longrightarrow> process_exit w tool args y = exit_code w tool args"
  by (simp add: process_exit_def)

lemma git_exit_other:
  "sub \<notin> set [''add'', ''diff'', ''commit''] \<Longrightarrow> git_exit (sub # rest) y = 0"
  by (simp add: git_exit_def)

text \<open>
  A process whose exit code the state of the repository does not decide (any tool but
  git, and the git commands other than \<open>add\<close>, \<open>diff\<close>, \<open>commit\<close> and \<open>rebase\<close>).
\<close>

lemma exec_tool_ok:
  "exit_code w tool args = 0 \<Longrightarrow> tool \<noteq> ''git'' \<Longrightarrow>
   exec w tool args ign s =
     (Inr 0, s\<lparr>trace := trace s @ [Exec tool args 0],
               world_of := cmd_effect w tool args (world_of s)\<rparr>)"
  by (simp add: exec_def run_process_def process_exit_def process_effect_def Let_def)

lemma exec_git_ok:
  "exit_code w ''git'' (sub # rest) = 0 \<Longrightarrow>
   sub \<notin> set [''add'', ''diff'', ''commit'', ''rebase''] \<Longrightarrow>
   exec w ''git'' (sub # rest) ign s =
     (Inr 0, s\<lparr>trace := trace s @ [Exec ''git'' (sub # rest) 0],
               world_of := cmd_effect w ''git'' (sub # rest) (world_of s)\<rparr>)"
  by (simp add: exec_def run_process_def process_exit_def process_effect_def Let_def
      git_exit_def)

lemma exec_stdout_git_ok:
  "exit_code w ''git'' (sub # rest) = 0 \<Longrightarrow>
   sub \<notin> set [''add'', ''diff'', ''commit'', ''rebase'', ''status''] \<Longrightarrow>
   exec_stdout w ''git'' (sub # rest) s =
     (Inr (stdout w ''git'' (sub # rest)),
      s\<lparr>trace := trace s @ [Exec ''git'' (sub # rest) 0],
        world_of := cmd_effect w ''git'' (sub # rest) (world_of s)\<rparr>)"
  by (simp add: exec_stdout_def run_process_def process_exit_def process_effect_def Let_def
      git_exit_def process_output_def)

lemma exec_sync_ok:
  "exit_code w tool args = 0 \<Longrightarrow> tool \<noteq> ''git'' \<Longrightarrow>
   execSync w line tool args s =
     (Inr (stdout w tool args),
      s\<lparr>trace := trace s @ [Exec tool args 0],
        world_of := cmd_effect w tool args (world_of s)\<rparr>)"
  by (simp add: execSync_def run_process_def process_exit_def process_effect_def
      process_output_def Let_def)

text \<open>A process run with \<open>ignoreReturnCode\<close> returns its exit code, whatever it is.\<close>

lemma exec_ignored:
  "exec w tool args True s =
     (Inr (process_exit w tool args (world_of s)),
      s\<lparr>trace := trace s @ [Exec tool args (process_exit w tool args (world_of s))],
        world_of := process_effect w tool args (process_exit w tool args (world_of s))
                      (world_of s)\<rparr>)"
  by (simp add: exec_def run_process_def Let_def)

lemma exec_throwing:
  "exec w tool args False s =
     (if process_exit w tool args (world_of s) = 0
      then (Inr 0, s\<lparr>trace := trace s @ [Exec tool args 0],
                     world_of := process_effect w tool args 0 (world_of s)\<rparr>)
      else (Inl (exit_error w tool (process_exit w tool args (world_of s))),
            s\<lparr>trace := trace s @ [Exec tool args (process_exit w tool args (world_of s))],
              world_of := process_effect w tool args (process_exit w tool args (world_of s))
                            (world_of s)\<rparr>))"
  by (simp add: exec_def run_process_def Let_def)

lemma process_exit_rebase:
  "process_exit w ''git'' (''rebase'' # rest) y = exit_code w ''git'' (''rebase'' # rest)"
  by (simp add: process_exit_def git_exit_def)

lemma process_effect_rebase:
  "process_effect w ''git'' (''rebase'' # rest) c y = move_head w (''rebase'' # rest) c y"
  by (simp add: process_effect_def)



text \<open>
  The three git commands whose exit code the state of the repository decides, in a world
  that puts no other obstacle in their way.
\<close>

lemma exec_add:
  assumes "exit_code w ''git'' (''add'' # specs) = 0"
  shows "exec w ''git'' (''add'' # specs) True s =
     (Inr (if all_matched specs (world_of s) then 0 else 128),
      s\<lparr>trace := trace s @
           [Exec ''git'' (''add'' # specs) (if all_matched specs (world_of s) then 0 else 128)],
        world_of :=
          (if all_matched specs (world_of s)
           then (world_of s)\<lparr>index_tree :=
                  stage specs (work_tree (world_of s)) (index_tree (world_of s))\<rparr>
           else world_of s)\<rparr>)"
  using assms
  by (simp add: exec_def run_process_def process_exit_def process_effect_def git_exit_def
      effect_add Let_def)

lemma exec_diff_cached:
  assumes "exit_code w ''git'' [''diff'', ''--cached'', ''--quiet''] = 0"
  shows "exec w ''git'' [''diff'', ''--cached'', ''--quiet''] True s =
     (Inr (if changed_paths (index_tree (world_of s)) (head_tree (world_of s)) = []
           then 0 else 1),
      s\<lparr>trace := trace s @
           [Exec ''git'' [''diff'', ''--cached'', ''--quiet'']
              (if changed_paths (index_tree (world_of s)) (head_tree (world_of s)) = []
               then 0 else 1)]\<rparr>)"
  using assms
  by (simp add: exec_def run_process_def process_exit_def process_effect_def git_exit_def
      effect_git_other Let_def)

lemma exec_commit:
  assumes "exit_code w ''git'' (''commit'' # rest) = 0"
    and "changed_paths (index_tree (world_of s)) (head_tree (world_of s)) \<noteq> []"
  shows "exec w ''git'' (''commit'' # rest) False s =
     (Inr 0,
      s\<lparr>trace := trace s @ [Exec ''git'' (''commit'' # rest) 0],
        world_of := (world_of s)\<lparr>commit_log := commit_log (world_of s) @ [messages_of rest],
                                  head_tree := index_tree (world_of s)\<rparr>\<rparr>)"
  using assms
  by (simp add: exec_def run_process_def process_exit_def process_effect_def git_exit_def
      effect_commit Let_def)

section \<open>The steps of the update path\<close>

text \<open>The build, when every step of it succeeds.\<close>

lemma buildLsp_ok:
  assumes "\<forall>tool args. exit_code w tool args = 0"
    and "\<forall>op path. fs_fail w op path = None"
    and "is_directory w (tmp_dir w @ ''/dist'')"
    and "dir_entries w out \<noteq> []"
  shows "buildLsp w version out s =
          (Inr (out, dir_entries w out),
           s\<lparr>trace := trace s @ build_events w version out,
             world_of := fs_effect w ''rmRF'' (tmp_dir w)
                (fs_effect w ''cp'' out (fs_effect w ''rmRF'' out (world_of s)))\<rparr>)"
  using assms
  by (simp add: buildLsp_def build_events_def execWithLog_def exec_tool_ok exec_git_ok
      effect_git_other effect_other fs_effect_read comp_defs)

text \<open>
  \<open>updateVersionFiles\<close>, when every file can be read and written, and in a repository
  that has no \<open>src/config.rs\<close>.
\<close>

lemma updateVersionFiles_ok:
  assumes "\<forall>op path. fs_fail w op path = None"
  shows "updateVersionFiles w version s =
     (Inr (),
      s\<lparr>trace := trace s @
           [Fs ''readFile'' ''extension.toml'', Fs ''writeFile'' ''extension.toml'',
            Fs ''readFile'' ''Cargo.toml'', Fs ''writeFile'' ''Cargo.toml'',
            Fs ''access'' ''src/config.rs'', Fs ''readFile'' ''src/config.rs'',
            Fs ''writeFile'' ''src/config.rs''],
        world_of :=
          fs_effect w ''writeFile'' ''src/config.rs''
            (fs_effect w ''writeFile'' ''Cargo.toml''
              (fs_effect w ''writeFile'' ''extension.toml'' (world_of s)))\<rparr>)"
  using assms by (simp add: updateVersionFiles_def fs_effect_read comp_defs)

lemma updateVersionFiles_no_config:
  assumes "fs_fail w ''readFile'' ''extension.toml'' = None"
    and "fs_fail w ''writeFile'' ''extension.toml'' = None"
    and "fs_fail w ''readFile'' ''Cargo.toml'' = None"
    and "fs_fail w ''writeFile'' ''Cargo.toml'' = None"
    and "fs_fail w ''access'' ''src/config.rs'' = Some e"
  shows "updateVersionFiles w version s =
     (Inr (),
      s\<lparr>trace := trace s @
           [Fs ''readFile'' ''extension.toml'', Fs ''writeFile'' ''extension.toml'',
            Fs ''readFile'' ''Cargo.toml'', Fs ''writeFile'' ''Cargo.toml'',
            Fs ''access'' ''src/config.rs''],
        world_of :=
            fs_effect w ''writeFile'' ''Cargo.toml''
              (fs_effect w ''writeFile'' ''extension.toml'' (world_of s))\<rparr>)"
  using assms by (simp add: updateVersionFiles_def fs_effect_read comp_defs)

text \<open>
  \<open>commitChanges\<close> in a world that puts no obstacle in the way of git: \<open>git add\<close>
  stages when each of the five pathspecs matches a file and exits with 128, staging
  nothing, when one does not; the commit is made exactly when the index then differs from
  \<open>HEAD\<close>.
\<close>

lemma commitChanges_run:
  assumes "exit_code w ''git'' [''config'', ''user.name'', ''github-actions[bot]''] = 0"
    and "exit_code w ''git'' [''config'', ''user.email'',
           ''github-actions[bot]@users.noreply.github.com''] = 0"
    and "exit_code w ''git'' (''add'' # update_paths) = 0"
    and "exit_code w ''git'' [''diff'', ''--cached'', ''--quiet''] = 0"
    and "exit_code w ''git'' [''commit'', ''-m'', commit_title version] = 0"
    and "y1 = (if all_matched update_paths (world_of s)
               then (world_of s)\<lparr>index_tree :=
                      stage update_paths (work_tree (world_of s)) (index_tree (world_of s))\<rparr>
               else world_of s)"
  shows "commitChanges w version s =
     (if changed_paths (index_tree y1) (head_tree y1) = []
      then (Inr False,
            s\<lparr>trace := trace s @
               [Exec ''git'' [''config'', ''user.name'', ''github-actions[bot]''] 0,
                Exec ''git'' [''config'', ''user.email'',
                  ''github-actions[bot]@users.noreply.github.com''] 0,
                Exec ''git'' (''add'' # update_paths)
                  (if all_matched update_paths (world_of s) then 0 else 128),
                Exec ''git'' [''diff'', ''--cached'', ''--quiet''] 0],
              world_of := y1\<rparr>)
      else (Inr True,
            s\<lparr>trace := trace s @
               [Exec ''git'' [''config'', ''user.name'', ''github-actions[bot]''] 0,
                Exec ''git'' [''config'', ''user.email'',
                  ''github-actions[bot]@users.noreply.github.com''] 0,
                Exec ''git'' (''add'' # update_paths)
                  (if all_matched update_paths (world_of s) then 0 else 128),
                Exec ''git'' [''diff'', ''--cached'', ''--quiet''] 1,
                Exec ''git'' [''commit'', ''-m'', commit_title version] 0],
              world_of := y1\<lparr>commit_log := commit_log y1 @ [ [commit_title version] ],
                             head_tree := index_tree y1\<rparr>\<rparr>))"
proof (cases "all_matched update_paths (world_of s)")
  case True
  then show ?thesis
    unfolding assms(6)
    by (simp add: commitChanges_def exec_git_ok [OF assms(1)] exec_git_ok [OF assms(2)]
        exec_add [OF assms(3)] exec_diff_cached [OF assms(4)] exec_commit [OF assms(5)]
        effect_git_other ret_def bnd_def)
next
  case False
  then show ?thesis
    unfolding assms(6)
    by (simp add: commitChanges_def exec_git_ok [OF assms(1)] exec_git_ok [OF assms(2)]
        exec_add [OF assms(3)] exec_diff_cached [OF assms(4)] exec_commit [OF assms(5)]
        effect_git_other ret_def bnd_def)
qed

lemma commitChanges_frame:
  assumes "\<forall>tool args. exit_code w tool args = 0"
  shows "\<exists>b. fst (commitChanges w version s) = Inr b"
    and "outputs (snd (commitChanges w version s)) = outputs s"
    and "warnings (snd (commitChanges w version s)) = warnings s"
    and "failed (snd (commitChanges w version s)) = failed s"
    and "releases (world_of (snd (commitChanges w version s))) = releases (world_of s)"
    and "remote_refs (world_of (snd (commitChanges w version s))) = remote_refs (world_of s)"
    and "tracking (world_of (snd (commitChanges w version s))) = tracking (world_of s)"
    and "work_tree (world_of (snd (commitChanges w version s))) = work_tree (world_of s)"
    and "set (trace s) \<subseteq> set (trace (snd (commitChanges w version s)))"
    and "filter is_push (trace (snd (commitChanges w version s))) = filter is_push (trace s)"
proof -
  have e: "exit_code w tool args = 0" for tool args
    using assms by simp
  note run = commitChanges_run [OF e e e e e refl, where version = version and s = s]
  show "\<exists>b. fst (commitChanges w version s) = Inr b"
    unfolding run by auto
  show "outputs (snd (commitChanges w version s)) = outputs s"
    "warnings (snd (commitChanges w version s)) = warnings s"
    "failed (snd (commitChanges w version s)) = failed s"
    "releases (world_of (snd (commitChanges w version s))) = releases (world_of s)"
    "remote_refs (world_of (snd (commitChanges w version s))) = remote_refs (world_of s)"
    "tracking (world_of (snd (commitChanges w version s))) = tracking (world_of s)"
    "work_tree (world_of (snd (commitChanges w version s))) = work_tree (world_of s)"
    "filter is_push (trace (snd (commitChanges w version s))) = filter is_push (trace s)"
    unfolding run by simp_all
  show "set (trace s) \<subseteq> set (trace (snd (commitChanges w version s)))"
    unfolding run by auto
qed

lemma commitChanges_missing_path:
  assumes "\<forall>tool args. exit_code w tool args = 0"
    and "\<not> all_matched update_paths (world_of s)"
    and "changed_paths (index_tree (world_of s)) (head_tree (world_of s)) = []"
  shows "commitChanges w version s =
     (Inr False,
      s\<lparr>trace := trace s @
         [Exec ''git'' [''config'', ''user.name'', ''github-actions[bot]''] 0,
          Exec ''git'' [''config'', ''user.email'',
            ''github-actions[bot]@users.noreply.github.com''] 0,
          Exec ''git'' (''add'' # update_paths) 128,
          Exec ''git'' [''diff'', ''--cached'', ''--quiet''] 0]\<rparr>)"
proof -
  have e: "exit_code w tool args = 0" for tool args
    using assms(1) by simp
  show ?thesis
    using assms(2,3)
    by (simp add: commitChanges_run [OF e e e e e refl, where version = version and s = s])
qed

text \<open>\<open>createPrerelease\<close>, up to the step that fails or to its end.\<close>

lemma bundle_names_distinct:
  "tarball_name v \<noteq> sha256_name v" "tarball_name v \<noteq> ''-f''" "sha256_name v \<noteq> ''-f''"
  by (simp_all add: tarball_name_def sha256_name_def)

lemma createPrerelease_rejected:
  assumes "exit_code w ''tar'' [''-czf'', tarball_name version, ''lsp/''] = 0"
    and "fs_fail w ''readFile'' (tarball_name version) = None"
    and "fs_fail w ''writeFile'' (sha256_name version) = None"
    and "api_fail w (CreateRelease version (''v'' @ version) (prerelease_body version)
           False True) = Some msg"
  shows "createPrerelease w version s =
     (Inl msg,
      s\<lparr>trace := trace s @
            [Exec ''tar'' [''-czf'', tarball_name version, ''lsp/''] 0,
             Fs ''readFile'' (tarball_name version),
             Fs ''writeFile'' (sha256_name version),
             Api (CreateRelease version (''v'' @ version) (prerelease_body version)
                    False True)],
        world_of :=
          fs_effect w ''writeFile'' (sha256_name version)
            (cmd_effect w ''tar'' [''-czf'', tarball_name version, ''lsp/''] (world_of s))\<rparr>)"
  using assms(2-4)
  by (simp add: createPrerelease_def execWithLog_def exec_tool_ok [OF assms(1)]
      createRelease_def fs_effect_read comp_defs)

lemma createPrerelease_upload_failed:
  assumes "exit_code w ''tar'' [''-czf'', tarball_name version, ''lsp/''] = 0"
    and "fs_fail w ''readFile'' (tarball_name version) = None"
    and "fs_fail w ''writeFile'' (sha256_name version) = None"
    and "api_fail w (CreateRelease version (''v'' @ version) (prerelease_body version)
           False True) = None"
    and "api_fail w (UploadReleaseAsset (new_release_id w) (tarball_name version)) = Some msg"
  shows "createPrerelease w version s =
     (Inl msg,
      s\<lparr>trace := trace s @
            [Exec ''tar'' [''-czf'', tarball_name version, ''lsp/''] 0,
             Fs ''readFile'' (tarball_name version),
             Fs ''writeFile'' (sha256_name version),
             Api (CreateRelease version (''v'' @ version) (prerelease_body version)
                    False True),
             Api (UploadReleaseAsset (new_release_id w) (tarball_name version))],
        world_of :=
          (fs_effect w ''writeFile'' (sha256_name version)
             (cmd_effect w ''tar'' [''-czf'', tarball_name version, ''lsp/''] (world_of s)))
          \<lparr>releases :=
             \<lparr>rel_id = new_release_id w, tag_name = version, rel_name = ''v'' @ version,
              rel_body = prerelease_body version, draft = False, prerelease = True,
              html_url = new_release_url w\<rparr> # releases (world_of s)\<rparr>\<rparr>)"
  using assms(2-5)
  by (simp add: createPrerelease_def execWithLog_def exec_tool_ok [OF assms(1)]
      createRelease_def uploadReleaseAsset_def fs_effect_read comp_defs)

lemma createPrerelease_second_upload_failed:
  assumes "exit_code w ''tar'' [''-czf'', tarball_name version, ''lsp/''] = 0"
    and "fs_fail w ''readFile'' (tarball_name version) = None"
    and "fs_fail w ''writeFile'' (sha256_name version) = None"
    and "api_fail w (CreateRelease version (''v'' @ version) (prerelease_body version)
           False True) = None"
    and "api_fail w (UploadReleaseAsset (new_release_id w) (tarball_name version)) = None"
    and "fs_fail w ''readFile'' (sha256_name version) = None"
    and "api_fail w (UploadReleaseAsset (new_release_id w) (sha256_name version)) = Some msg"
  shows "createPrerelease w version s =
     (Inl msg,
      s\<lparr>trace := trace s @
            [Exec ''tar'' [''-czf'', tarball_name version, ''lsp/''] 0,
             Fs ''readFile'' (tarball_name version),
             Fs ''writeFile'' (sha256_name version),
             Api (CreateRelease version (''v'' @ version) (prerelease_body version)
                    False True),
             Api (UploadReleaseAsset (new_release_id w) (tarball_name version)),
             Fs ''readFile'' (sha256_name version),
             Api (UploadReleaseAsset (new_release_id w) (sha256_name version))],
        world_of :=
          (fs_effect w ''writeFile'' (sha256_name version)
             (cmd_effect w ''tar'' [''-czf'', tarball_name version, ''lsp/''] (world_of s)))
          \<lparr>releases :=
             \<lparr>rel_id = new_release_id w, tag_name = version, rel_name = ''v'' @ version,
              rel_body = prerelease_body version, draft = False, prerelease = True,
              html_url = new_release_url w\<rparr> # releases (world_of s)\<rparr>\<rparr>)"
  using assms(2-7)
  by (simp add: createPrerelease_def execWithLog_def exec_tool_ok [OF assms(1)]
      createRelease_def uploadReleaseAsset_def fs_effect_read comp_defs)

lemma createPrerelease_done:
  assumes "exit_code w ''tar'' [''-czf'', tarball_name version, ''lsp/''] = 0"
    and "fs_fail w ''readFile'' (tarball_name version) = None"
    and "fs_fail w ''writeFile'' (sha256_name version) = None"
    and "api_fail w (CreateRelease version (''v'' @ version) (prerelease_body version)
           False True) = None"
    and "api_fail w (UploadReleaseAsset (new_release_id w) (tarball_name version)) = None"
    and "fs_fail w ''readFile'' (sha256_name version) = None"
    and "api_fail w (UploadReleaseAsset (new_release_id w) (sha256_name version)) = None"
    and "exit_code w ''rm'' [''-f'', tarball_name version, sha256_name version] = 0"
  shows "createPrerelease w version s =
     (Inr (new_release_id w, new_release_url w),
      s\<lparr>trace := trace s @
            [Exec ''tar'' [''-czf'', tarball_name version, ''lsp/''] 0,
             Fs ''readFile'' (tarball_name version),
             Fs ''writeFile'' (sha256_name version),
             Api (CreateRelease version (''v'' @ version) (prerelease_body version)
                    False True),
             Api (UploadReleaseAsset (new_release_id w) (tarball_name version)),
             Fs ''readFile'' (sha256_name version),
             Api (UploadReleaseAsset (new_release_id w) (sha256_name version)),
             Exec ''rm'' [''-f'', tarball_name version, sha256_name version] 0],
        world_of :=
          cmd_effect w ''rm'' [''-f'', tarball_name version, sha256_name version]
            ((fs_effect w ''writeFile'' (sha256_name version)
                (cmd_effect w ''tar'' [''-czf'', tarball_name version, ''lsp/''] (world_of s)))
             \<lparr>releases :=
                \<lparr>rel_id = new_release_id w, tag_name = version, rel_name = ''v'' @ version,
                 rel_body = prerelease_body version, draft = False, prerelease = True,
                 html_url = new_release_url w\<rparr> # releases (world_of s)\<rparr>)\<rparr>)"
  using assms(2-7)
  by (simp add: createPrerelease_def execWithLog_def exec_tool_ok [OF assms(1)]
      exec_tool_ok [OF assms(8)] createRelease_def uploadReleaseAsset_def fs_effect_read
      comp_defs)


lemma createPrerelease_returns_new:
  assumes "fst (createPrerelease w version s) = Inr r"
  shows "r = (new_release_id w, new_release_url w)"
  using assms
  by (auto simp: createPrerelease_def execWithLog_def exec_throwing process_exit_tool
      createRelease_def uploadReleaseAsset_def comp_defs split: option.splits if_splits)

lemma createPrerelease_no_lookup:
  "Api ListReleases \<notin> set (trace s) \<Longrightarrow>
   Api ListReleases \<notin> set (trace (snd (createPrerelease w version s)))"
  by (auto simp: createPrerelease_def execWithLog_def exec_throwing process_exit_tool
      createRelease_def uploadReleaseAsset_def comp_defs split: option.splits if_splits)


lemma createPrerelease_asks:
  assumes "exit_code w ''tar'' [''-czf'', tarball_name version, ''lsp/''] = 0"
    and "fs_fail w ''readFile'' (tarball_name version) = None"
    and "fs_fail w ''writeFile'' (sha256_name version) = None"
  shows "Api (CreateRelease version (''v'' @ version) (prerelease_body version) False True)
           \<in> set (trace (snd (createPrerelease w version s)))"
  using assms
  by (auto simp: createPrerelease_def execWithLog_def exec_throwing process_exit_tool
      createRelease_def uploadReleaseAsset_def comp_defs split: option.splits if_splits)

lemma createPrerelease_accepted:
  assumes "exit_code w ''tar'' [''-czf'', tarball_name version, ''lsp/''] = 0"
    and "fs_fail w ''readFile'' (tarball_name version) = None"
    and "fs_fail w ''writeFile'' (sha256_name version) = None"
    and "api_fail w (CreateRelease version (''v'' @ version) (prerelease_body version)
           False True) = None"
  shows "releases (world_of (snd (createPrerelease w version s))) =
           \<lparr>rel_id = new_release_id w, tag_name = version, rel_name = ''v'' @ version,
            rel_body = prerelease_body version, draft = False, prerelease = True,
            html_url = new_release_url w\<rparr> # releases (world_of s)"
  using assms
  by (auto simp: createPrerelease_def execWithLog_def exec_throwing process_exit_tool
      createRelease_def uploadReleaseAsset_def comp_defs split: option.splits if_splits)



lemma update_steps_upload_failed:
  assumes ex: "\<forall>tool args. exit_code w tool args = 0"
    and fsok: "\<forall>op path. fs_fail w op path = None"
    and dir: "is_directory w (tmp_dir w @ ''/dist'')" "dir_entries w ''lsp'' \<noteq> []"
    and v: "v = c_version c"
    and cr: "api_fail w (CreateRelease v (''v'' @ v) (prerelease_body v) False True) = None"
    and up: "api_fail w (UploadReleaseAsset (new_release_id w) (tarball_name v)) = Some msg"
  shows "fst (update_steps w c s) = Inl msg"
    and "map_of (work_tree (world_of (snd (update_steps w c s)))) (tarball_name v) =
           Some (written w (tarball_name v))"
    and "map_of (work_tree (world_of (snd (update_steps w c s)))) (sha256_name v) =
           Some (written w (sha256_name v))"
    and "outputs (snd (update_steps w c s)) = outputs s"
    and "failed (snd (update_steps w c s)) = failed s"
proof -
  have e: "exit_code w tool args = 0" for tool args
    using ex by simp
  have f: "fs_fail w op path = None" for op path
    using fsok by simp
  define s1 where "s1 = snd (buildLsp w v ''lsp'' s)"
  define s2 where "s2 = snd (updateVersionFiles w v s1)"
  define s3 where "s3 = snd (commitChanges w v s2)"
  define s4 where "s4 = snd (createPrerelease w v s3)"
  note build = buildLsp_ok [OF ex fsok dir, where version = v and s = s]
  have r1: "buildLsp w v ''lsp'' s = (Inr (''lsp'', dir_entries w ''lsp''), s1)"
    by (simp add: s1_def build)
  have k1: "outputs s1 = outputs s" "failed s1 = failed s"
    by (simp_all add: s1_def build)
  note upd = updateVersionFiles_ok [OF fsok, where version = v and s = s1]
  have r2: "updateVersionFiles w v s1 = (Inr (), s2)"
    by (simp add: s2_def upd)
  have k2: "outputs s2 = outputs s1" "failed s2 = failed s1"
    by (simp_all add: s2_def upd)
  note cf = commitChanges_frame [OF ex, where version = v and s = s2]
  obtain cb where r3: "commitChanges w v s2 = (Inr cb, s3)"
    using cf(1) by (cases "commitChanges w v s2") (auto simp: s3_def)
  have k3: "outputs s3 = outputs s2" "failed s3 = failed s2"
    using cf by (simp_all add: s3_def)
  note pre = createPrerelease_upload_failed [OF e f f cr up, where s = s3]
  have r4: "createPrerelease w v s3 = (Inl msg, s4)"
    by (simp add: s4_def pre)
  have k4: "outputs s4 = outputs s3" "failed s4 = failed s3"
    "map_of (work_tree (world_of s4)) (tarball_name v) = Some (written w (tarball_name v))"
    "map_of (work_tree (world_of s4)) (sha256_name v) = Some (written w (sha256_name v))"
    by (simp_all add: s4_def pre fs_effect_def effect_tar map_of_put_file bundle_names_distinct)
  have run: "update_steps w c s = (Inl msg, s4)"
    by (simp add: update_steps_def v [symmetric] r1 r2 r3 r4 bnd_def Let_def)
  show "fst (update_steps w c s) = Inl msg"
    "map_of (work_tree (world_of (snd (update_steps w c s)))) (tarball_name v) =
           Some (written w (tarball_name v))"
    "map_of (work_tree (world_of (snd (update_steps w c s)))) (sha256_name v) =
           Some (written w (sha256_name v))"
    "outputs (snd (update_steps w c s)) = outputs s"
    "failed (snd (update_steps w c s)) = failed s"
    by (simp_all add: run k1 k2 k3 k4)
qed

text \<open>\<open>run\<close> on the path of the Version Oracle that ends with an update to do.\<close>

lemma oracle_run:
  assumes "truthy (input w ''github-token'')"
    and "trim (input w ''version'') = []"
    and "api_fail w FindOpenLspUpdatePr = None"
    and "find (\<lambda>p. isUpdateLspBranch (Some (pr_branch p))) (open_pulls w) = None"
    and "fs_fail w ''readFile'' ''extension.toml'' = None"
    and "api_fail w GetLatestLspRelease = None"
    and "u_version (latest_upstream w) \<noteq> getLspVersion (toml w)"
  shows "run_update_lsp w s =
     run_main
       (update_steps w \<lparr>needed = True, c_version = u_version (latest_upstream w),
                        changelog = u_body (latest_upstream w)\<rparr>)
       (s\<lparr>trace := trace s @ [Api FindOpenLspUpdatePr, Fs ''readFile'' ''extension.toml'',
                              Api GetLatestLspRelease]\<rparr>)"
  using assms
  by (simp add: run_update_lsp_def getInput_def checkForUpdate_def findOpenLspUpdatePr_def
      readExtensionToml_def getLatestLspRelease_def fs_effect_read truthy_def ret_def bnd_def
      emit_def api_def fs_def modify_sys_def throw_def run_main_def Let_def)

section \<open>Version Oracle: guard, override and decision\<close>

text \<open>
  C8. Version Oracle decision: when the lookup of open pull requests answers and finds no
  branch \<open>update-lsp-*\<close>, no manual version is given (absent or empty), and the manifest
  and upstream can be read, \<open>checkForUpdate\<close> asks upstream and returns a result with
  \<open>needed = false\<close> exactly when the latest upstream version equals the declared
  version as a string; otherwise \<open>needed = true\<close> with the upstream version and the
  upstream release body as changelog.
\<close>

theorem version_oracle_decision:
  assumes "api_fail w FindOpenLspUpdatePr = None"
    and "\<forall>p \<in> set (open_pulls w). \<not> startsWith (pr_branch p) ''update-lsp-''"
    and "manualVersion = None \<or> manualVersion = Some []"
    and "fs_fail w ''readFile'' ''extension.toml'' = None"
    and "api_fail w GetLatestLspRelease = None"
  shows "\<exists>c. checkForUpdate w manualVersion s =
           (Inr (Some c),
            s\<lparr>trace := trace s @ [Api FindOpenLspUpdatePr, Fs ''readFile'' ''extension.toml'',
                                   Api GetLatestLspRelease]\<rparr>)
         \<and> (\<not> needed c \<longleftrightarrow> u_version (latest_upstream w) = getLspVersion (toml w))
         \<and> (needed c \<longrightarrow> c_version c = u_version (latest_upstream w)
                          \<and> changelog c = u_body (latest_upstream w))"
  using assms find_no_update_branch [OF assms(2)]
  by (auto simp: checkForUpdate_def findOpenLspUpdatePr_def readExtensionToml_def
      getLatestLspRelease_def comp_defs truthy_def fs_effect_read)

theorem version_oracle_decision_witness:
  "\<exists>c. checkForUpdate quiet None (start no_sys) =
          (Inr (Some c),
           (start no_sys)\<lparr>trace := [Api FindOpenLspUpdatePr, Fs ''readFile'' ''extension.toml'',
                                    Api GetLatestLspRelease]\<rparr>)
        \<and> needed c \<and> c_version c = ''1.3.0'' \<and> changelog c = ''notes''"
  using version_oracle_decision [of quiet None "start no_sys"]
  by (auto simp: quiet_def start_def getLspVersion_def)



text \<open>
  C1. Single in-flight guard: when the lookup of open pull requests answers and an open
  pull request has a branch \<open>update-lsp-*\<close>, \<open>checkForUpdate\<close> returns the skip sentinel
  \<open>null\<close> after the lookup alone, whatever the manual version, the declared version and
  the upstream version are; \<open>run\<close> then only sets the output \<open>updated\<close> to \<open>false\<close>.
\<close>

theorem in_flight_guard:
  assumes "api_fail w FindOpenLspUpdatePr = None"
    and "p \<in> set (open_pulls w)"
    and "startsWith (pr_branch p) ''update-lsp-''"
  shows "checkForUpdate w manualVersion s =
           (Inr None, s\<lparr>trace := trace s @ [Api FindOpenLspUpdatePr]\<rparr>)
         \<and> (truthy (input w ''github-token'') \<longrightarrow>
              run_update_lsp w s =
                s\<lparr>trace := trace s @ [Api FindOpenLspUpdatePr],
                  outputs := outputs s @ [(''updated'', ''false'')]\<rparr>
              \<and> output_of (run_update_lsp w s) ''updated'' = Some ''false'')"
proof -
  have chk: "checkForUpdate w mv s =
           (Inr None, s\<lparr>trace := trace s @ [Api FindOpenLspUpdatePr]\<rparr>)" for mv
    using assms(1) find_update_branch [OF assms(2,3)]
    by (auto simp: checkForUpdate_def findOpenLspUpdatePr_def comp_defs)
  have run: "run_update_lsp w s =
           s\<lparr>trace := trace s @ [Api FindOpenLspUpdatePr],
             outputs := outputs s @ [(''updated'', ''false'')]\<rparr>"
    if "truthy (input w ''github-token'')"
    using that chk
    by (simp add: run_update_lsp_def getInput_def ret_def bnd_def run_main_def Let_def
        setOutput_def)
  from chk run show ?thesis by (simp add: output_of_def)
qed

theorem in_flight_guard_witness:
  "checkForUpdate in_flight (Some ''2.0.0'') (start no_sys) =
     (Inr None, (start no_sys)\<lparr>trace := [Api FindOpenLspUpdatePr]\<rparr>)
   \<and> output_of (run_update_lsp in_flight (start no_sys)) ''updated'' = Some ''false''"
  using in_flight_guard [of in_flight pr4 "Some ''2.0.0''" "start no_sys"]
  by (simp add: in_flight_def pr4_def quiet_def start_def truthy_def output_of_def)

section \<open>Commit Verifier: the promotion gate\<close>

lemma str_includes_here: "str_includes (p @ b) p"
proof (cases "p @ b")
  case Nil
  then show ?thesis by simp
next
  case (Cons a list)
  have "startsWith (p @ b) p" by (rule startsWith_append)
  then show ?thesis unfolding Cons by simp
qed

lemma str_includes_append: "str_includes (a @ p @ b) p"
proof (induction a)
  case Nil
  show ?case by (simp add: str_includes_here)
next
  case (Cons x a)
  then show ?case by simp
qed

text \<open>
  C4, as amended. Promotion gate: for a commit whose author is not \<open>github-actions[bot]\<close>
  or whose message does not start with \<open>chore: update language server to\<close>,
  \<open>verifyLspUpdateCommit\<close> returns \<open>isValid = false\<close>, and \<open>run\<close> ends after reading the
  commit with the outputs \<open>skipped = true\<close> and \<open>reason\<close>, with no other request and no
  release changed. When the author differs, the reason contains the author as printed
  (\<open>undefined\<close> when the commit has none). When the author is the automation and only
  the message differs, the reason is the fixed text
  \<open>Skipping: Commit message doesn't match LSP update pattern\<close>.
\<close>

theorem promotion_gate:
  assumes "api_fail w (GetCommit sha) = None"
    and "author_name (commit_at w sha) \<noteq> Some ''github-actions[bot]''
         \<or> \<not> startsWith (message (commit_at w sha)) ''chore: update language server to''"
  shows "\<exists>v. verifyLspUpdateCommit w sha s = (Inr v, s\<lparr>trace := trace s @ [Api (GetCommit sha)]\<rparr>)
           \<and> \<not> isValid v
           \<and> (author_name (commit_at w sha) \<noteq> Some ''github-actions[bot]'' \<longrightarrow>
                str_includes (v_message v) (render (author_name (commit_at w sha))))
           \<and> (author_name (commit_at w sha) = Some ''github-actions[bot]'' \<longrightarrow>
                v_message v = ''Skipping: Commit message doesn't match LSP update pattern'')
           \<and> (truthy (input w ''github-token'') \<and> context_sha w = sha \<longrightarrow>
                run_publish_release w s =
                  s\<lparr>trace := trace s @ [Api (GetCommit sha)],
                    outputs := outputs s @ [(''skipped'', ''true''), (''reason'', v_message v)]\<rparr>)"
proof (cases "author_name (commit_at w sha) = Some ''github-actions[bot]''")
  case True
  with assms show ?thesis
    by (simp add: verifyLspUpdateCommit_def run_publish_release_def getInput_def comp_defs)
next
  case False
  have inc: "str_includes (''Skipping: Commit author is '' @ quoted (render a) @
                        '', expected '' @ quoted ''github-actions[bot]'') (render a)" for a
    using str_includes_append [of "''Skipping: Commit author is '' @ [CHR 0x27]" "render a"
        "[CHR 0x27] @ '', expected '' @ quoted ''github-actions[bot]''"]
    by (simp add: quoted_def)
  from False assms(1) inc show ?thesis
    by (simp add: verifyLspUpdateCommit_def run_publish_release_def getInput_def comp_defs)
qed

theorem promotion_gate_witness:
  "output_of (run_publish_release human_commit (start no_sys)) ''skipped'' = Some ''true''
   \<and> output_of (run_publish_release human_commit (start no_sys)) ''reason'' =
       Some (''Skipping: Commit author is '' @ quoted ''Ada'' @ '', expected '' @
             quoted ''github-actions[bot]'')
   \<and> world_of (run_publish_release human_commit (start no_sys)) = no_sys"
  using promotion_gate [of human_commit "''abc123''" "start no_sys"]
  by (auto simp: human_commit_def quiet_def start_def truthy_def output_of_def
      verifyLspUpdateCommit_def render_def comp_defs)

text \<open>
  C4 as stated fails where the author is the automation and the message is \<open>fix: typo\<close>:
  the reason reported does not contain the message.
\<close>

theorem promotion_gate_counterexample:
  "output_of (run_publish_release bot_fix_typo (start no_sys)) ''reason'' =
     Some ''Skipping: Commit message doesn't match LSP update pattern''
   \<and> message (commit_at bot_fix_typo (context_sha bot_fix_typo)) = ''fix: typo''
   \<and> \<not> str_includes ''Skipping: Commit message doesn't match LSP update pattern'' ''fix: typo''"
  by (simp add: bot_fix_typo_def quiet_def start_def run_publish_release_def
      verifyLspUpdateCommit_def getInput_def comp_defs truthy_def)

section \<open>Release Promoter: no prerelease for the version\<close>

lemma find_none_tag:
  assumes "\<forall>r \<in> set rels. \<not> ((prerelease r \<or> draft r) \<and> tag_name r = version)"
  shows "find (\<lambda>r. (prerelease r \<or> draft r) \<and> tag_name r = version) rels = None"
  using assms by (auto simp: find_None_iff)

lemma findPrerelease_none:
  assumes "api_fail w ListReleases = None"
    and "\<forall>r \<in> set (take 100 (releases (world_of s))).
           \<not> ((prerelease r \<or> draft r) \<and> tag_name r = version)"
  shows "findPrerelease w version s = (Inr None, s\<lparr>trace := trace s @ [Api ListReleases]\<rparr>)"
  using assms(1) find_none_tag [OF assms(2)]
  by (simp add: findPrerelease_def listReleases_def comp_defs)

lemma gated_skip:
  assumes "truthy (input w ''github-token'')"
    and "api_fail w (GetCommit (context_sha w)) = None"
    and "author_name (commit_at w (context_sha w)) = Some ''github-actions[bot]''"
    and "startsWith (message (commit_at w (context_sha w))) ''chore: update language server to''"
    and "fs_fail w ''readFile'' ''extension.toml'' = None"
    and "api_fail w ListReleases = None"
    and "\<forall>r \<in> set (take 100 (releases (world_of s))).
           \<not> ((prerelease r \<or> draft r) \<and> tag_name r = m_version (toml w))"
  shows "run_publish_release w s =
           s\<lparr>trace := trace s @ [Api (GetCommit (context_sha w)),
                                  Fs ''readFile'' ''extension.toml'', Api ListReleases],
             outputs := outputs s @ [(''skipped'', ''true''),
                                     (''reason'', ''No prerelease found for this version'')]\<rparr>"
proof -
  let ?s2 = "s\<lparr>trace := trace s @ [Api (GetCommit (context_sha w)),
                                  Fs ''readFile'' ''extension.toml'']\<rparr>"
  have "findPrerelease w (m_version (toml w)) ?s2 =
          (Inr None, ?s2\<lparr>trace := trace ?s2 @ [Api ListReleases]\<rparr>)"
    using assms(6,7) by (intro findPrerelease_none) simp_all
  then show ?thesis
    using assms(1-5)
    by (simp add: run_publish_release_def verifyLspUpdateCommit_def getInput_def
        readExtensionToml_def fs_effect_read comp_defs)
qed

lemma ungated_fallback:
  assumes "truthy (input w ''github-token'')"
    and "\<forall>tool args. exit_code w tool args = 0"
    and "\<forall>op path. fs_fail w op path = None"
    and "\<forall>r. api_fail w r = None"
    and "is_directory w (tmp_dir w @ ''/dist'')"
    and "dir_entries w ''lsp'' \<noteq> []"
    and "\<forall>r \<in> set (take 100 (releases (world_of s))).
           \<not> ((prerelease r \<or> draft r) \<and> tag_name r = m_version (toml w))"
    and "body = (if truthy (first_section (file_text w ''CHANGELOG.md''))
                 then first_section (file_text w ''CHANGELOG.md'')
                 else ''Release v'' @ m_version (toml w))"
    and "version = m_version (toml w)" and "lspVersion = getLspVersion (toml w)"
  shows "run_publish_or_build w s =
           s\<lparr>trace := trace s @
               [Fs ''readFile'' ''extension.toml'', Fs ''readFile'' ''CHANGELOG.md'',
                Api ListReleases] @
               build_events w lspVersion ''lsp'' @
               [Exec ''tar'' [''-czf'', tarball_name lspVersion, ''lsp/''] 0,
                Exec ''sha256sum'' [tarball_name lspVersion] 0,
                Fs ''writeFile'' (sha256_name lspVersion),
                Api (CreateRelease version (''v'' @ version) body False False),
                Fs ''readFile'' (tarball_name lspVersion),
                Api (UploadReleaseAsset (new_release_id w) (tarball_name lspVersion)),
                Fs ''readFile'' (sha256_name lspVersion),
                Api (UploadReleaseAsset (new_release_id w) (sha256_name lspVersion)),
                Fs ''rm'' (tarball_name lspVersion),
                Fs ''rm'' (sha256_name lspVersion),
                Fs ''rm'' ''lsp''],
             outputs := outputs s @
               [(''release-id'', int_str (new_release_id w)),
                (''release-url'', new_release_url w),
                (''promoted'', ''false'')],
             world_of :=
               fs_effect w ''rm'' ''lsp''
                (fs_effect w ''rm'' (sha256_name lspVersion)
                  (fs_effect w ''rm'' (tarball_name lspVersion)
                    ((fs_effect w ''writeFile'' (sha256_name lspVersion)
                       (cmd_effect w ''tar'' [''-czf'', tarball_name lspVersion, ''lsp/'']
                         (fs_effect w ''rmRF'' (tmp_dir w)
                           (fs_effect w ''cp'' ''lsp''
                             (fs_effect w ''rmRF'' ''lsp'' (world_of s))))))
                     \<lparr>releases :=
                        \<lparr>rel_id = new_release_id w, tag_name = version,
                         rel_name = ''v'' @ version, rel_body = body,
                         draft = False, prerelease = False,
                         html_url = new_release_url w\<rparr> # releases (world_of s)\<rparr>)))\<rparr>"
proof -
  let ?s2 = "s\<lparr>trace := trace s @ [Fs ''readFile'' ''extension.toml'',
                                   Fs ''readFile'' ''CHANGELOG.md'']\<rparr>"
  have fp: "findPrerelease w (m_version (toml w)) ?s2 =
          (Inr None, ?s2\<lparr>trace := trace ?s2 @ [Api ListReleases]\<rparr>)"
    using assms(4,7) by (intro findPrerelease_none) simp_all
  show ?thesis
    using assms(1-6) fp unfolding assms(8,9,10)
    by (simp add: run_publish_or_build_def getInput_def readExtensionToml_def
        getReleaseBody_def createReleaseFromScratch_def buildLsp_ok exec_sync_ok
        effect_other createRelease_def uploadReleaseAsset_def fs_effect_read comp_defs)
qed

text \<open>
  C3, as amended. When no prerelease or draft among the releases listed has the declared
  version as its tag: the promoter gated by the Commit Verifier does not fall back; after
  the gate has passed it ends with \<open>skipped = true\<close> and the reason
  \<open>No prerelease found for this version\<close>, without building and without creating or
  changing a release. The publisher that has no Commit Verifier falls back: when every
  step succeeds it runs the Artifact Builder, packages the result, and creates a new full
  release (\<open>draft = false\<close>, \<open>prerelease = false\<close>) for the declared version, with
  \<open>promoted = false\<close>.
\<close>

theorem promoter_without_prerelease:
  assumes "truthy (input w ''github-token'')"
    and "fs_fail w ''readFile'' ''extension.toml'' = None"
    and "api_fail w ListReleases = None"
    and "\<forall>r \<in> set (take 100 (releases (world_of s))).
           \<not> ((prerelease r \<or> draft r) \<and> tag_name r = m_version (toml w))"
  shows "(api_fail w (GetCommit (context_sha w)) = None
          \<and> author_name (commit_at w (context_sha w)) = Some ''github-actions[bot]''
          \<and> startsWith (message (commit_at w (context_sha w)))
               ''chore: update language server to'' \<longrightarrow>
          run_publish_release w s =
            s\<lparr>trace := trace s @ [Api (GetCommit (context_sha w)),
                                   Fs ''readFile'' ''extension.toml'', Api ListReleases],
              outputs := outputs s @ [(''skipped'', ''true''),
                                      (''reason'', ''No prerelease found for this version'')]\<rparr>)
       \<and> ((\<forall>tool args. exit_code w tool args = 0) \<and> (\<forall>op path. fs_fail w op path = None)
          \<and> (\<forall>r. api_fail w r = None) \<and> is_directory w (tmp_dir w @ ''/dist'')
          \<and> dir_entries w ''lsp'' \<noteq> [] \<longrightarrow>
          releases (world_of (run_publish_or_build w s)) =
            \<lparr>rel_id = new_release_id w, tag_name = m_version (toml w),
             rel_name = ''v'' @ m_version (toml w),
             rel_body = (if truthy (first_section (file_text w ''CHANGELOG.md''))
                         then first_section (file_text w ''CHANGELOG.md'')
                         else ''Release v'' @ m_version (toml w)),
             draft = False, prerelease = False,
             html_url = new_release_url w\<rparr> # releases (world_of s)
          \<and> set (build_events w (getLspVersion (toml w)) ''lsp'')
              \<subseteq> set (trace (run_publish_or_build w s))
          \<and> Exec ''tar'' [''-czf'', tarball_name (getLspVersion (toml w)), ''lsp/''] 0
              \<in> set (trace (run_publish_or_build w s))
          \<and> output_of (run_publish_or_build w s) ''promoted'' = Some ''false''
          \<and> failed (run_publish_or_build w s) = failed s)"
proof (intro conjI impI)
  assume "api_fail w (GetCommit (context_sha w)) = None
          \<and> author_name (commit_at w (context_sha w)) = Some ''github-actions[bot]''
          \<and> startsWith (message (commit_at w (context_sha w)))
               ''chore: update language server to''"
  then show "run_publish_release w s =
            s\<lparr>trace := trace s @ [Api (GetCommit (context_sha w)),
                                   Fs ''readFile'' ''extension.toml'', Api ListReleases],
              outputs := outputs s @ [(''skipped'', ''true''),
                                      (''reason'', ''No prerelease found for this version'')]\<rparr>"
    using assms by (intro gated_skip) simp_all
next
  assume coop: "(\<forall>tool args. exit_code w tool args = 0) \<and> (\<forall>op path. fs_fail w op path = None)
          \<and> (\<forall>r. api_fail w r = None) \<and> is_directory w (tmp_dir w @ ''/dist'')
          \<and> dir_entries w ''lsp'' \<noteq> []"
  then have c: "\<forall>tool args. exit_code w tool args = 0" "\<forall>op path. fs_fail w op path = None"
    "\<forall>r. api_fail w r = None" "is_directory w (tmp_dir w @ ''/dist'')"
    "dir_entries w ''lsp'' \<noteq> []"
    by simp_all
  note eq = ungated_fallback [OF assms(1) c assms(4) refl refl refl]
  show "releases (world_of (run_publish_or_build w s)) =
            \<lparr>rel_id = new_release_id w, tag_name = m_version (toml w),
             rel_name = ''v'' @ m_version (toml w),
             rel_body = (if truthy (first_section (file_text w ''CHANGELOG.md''))
                         then first_section (file_text w ''CHANGELOG.md'')
                         else ''Release v'' @ m_version (toml w)),
             draft = False, prerelease = False,
             html_url = new_release_url w\<rparr> # releases (world_of s)"
    by (simp add: eq)
  show "set (build_events w (getLspVersion (toml w)) ''lsp'')
              \<subseteq> set (trace (run_publish_or_build w s))"
    by (auto simp: eq)
  show "Exec ''tar'' [''-czf'', tarball_name (getLspVersion (toml w)), ''lsp/''] 0
              \<in> set (trace (run_publish_or_build w s))"
    by (simp add: eq)
  show "output_of (run_publish_or_build w s) ''promoted'' = Some ''false''"
    by (simp add: eq output_of_def)
  show "failed (run_publish_or_build w s) = failed s"
    by (simp add: eq)
qed

theorem promoter_without_prerelease_witness:
  "output_of (run_publish_release quiet (start no_sys)) ''skipped'' = Some ''true''
   \<and> releases (world_of (run_publish_release quiet (start no_sys))) = []
   \<and> map tag_name (releases (world_of (run_publish_or_build quiet (start no_sys)))) = [''1.2.0'']
   \<and> map prerelease (releases (world_of (run_publish_or_build quiet (start no_sys)))) = [False]"
  using promoter_without_prerelease [of quiet "start no_sys"]
  by (simp add: quiet_def start_def no_sys_def truthy_def output_of_def)

text \<open>
  C3 as stated fails on the gated promoter: in the quiet world the commit is verified
  and there is no release at all, and the run skips instead of building.
\<close>

theorem promoter_fallback_counterexample:
  "fst (verifyLspUpdateCommit quiet (context_sha quiet) (start no_sys)) =
     Inr \<lparr>isValid = True, v_message = ''Commit verified as LSP update''\<rparr>
   \<and> run_publish_release quiet (start no_sys) =
       (start no_sys)
         \<lparr>trace := [Api (GetCommit ''abc123''), Fs ''readFile'' ''extension.toml'',
                    Api ListReleases],
          outputs := [(''skipped'', ''true''),
                      (''reason'', ''No prerelease found for this version'')]\<rparr>"
  by (simp add: quiet_def start_def no_sys_def run_publish_release_def
      verifyLspUpdateCommit_def getInput_def readExtensionToml_def findPrerelease_def
      listReleases_def fs_effect_read truthy_def comp_defs)

section \<open>Rebase Keeper: conflict and no-op\<close>

text \<open>
  C5. Rebase conflict atomicity: in every run of the Rebase Keeper that reaches the
  rebase (identity, fetch, lookup, \<open>rev-parse\<close> and \<open>merge-base\<close> succeed, and the merge
  base is not the tip of \<open>origin/main\<close>) and in which \<open>git rebase\<close> exits with a
  non-zero code, the next and last command is \<open>git rebase --abort\<close>, no \<open>git push\<close> is
  run and the branches of the hosted repository are as before, one warning with the
  reason is reported, the outputs are \<open>rebased = false\<close> and \<open>error\<close> (the reason), and
  the run is not failed.
\<close>

theorem rebase_conflict_atomic:
  assumes "truthy (input w ''github-token'')"
    and "exit_code w ''git'' [''config'', ''user.name'', ''github-actions[bot]''] = 0"
    and "exit_code w ''git'' [''config'', ''user.email'',
           ''github-actions[bot]@users.noreply.github.com''] = 0"
    and "exit_code w ''git'' [''fetch'', ''origin'', ''main''] = 0"
    and "api_fail w FindOpenLspUpdatePr = None"
    and "find (\<lambda>p. isUpdateLspBranch (Some (pr_branch p))) (open_pulls w) = Some pr"
    and "exit_code w ''git'' [''rev-parse'', ''origin/main''] = 0"
    and "mainHead = trim (stdout w ''git'' [''rev-parse'', ''origin/main''])"
    and "exit_code w ''git'' [''merge-base'', pr_headSha pr, mainHead] = 0"
    and "trim (stdout w ''git'' [''merge-base'', pr_headSha pr, mainHead]) \<noteq> mainHead"
    and "exit_code w ''git'' [''rebase'', ''origin/main'', pr_headSha pr] \<noteq> 0"
  shows "trace (run_rebase w s) = trace s @
           [Exec ''git'' [''config'', ''user.name'', ''github-actions[bot]''] 0,
            Exec ''git'' [''config'', ''user.email'',
              ''github-actions[bot]@users.noreply.github.com''] 0,
            Exec ''git'' [''fetch'', ''origin'', ''main''] 0,
            Api FindOpenLspUpdatePr,
            Exec ''git'' [''rev-parse'', ''origin/main''] 0,
            Exec ''git'' [''merge-base'', pr_headSha pr, mainHead] 0,
            Exec ''git'' [''rebase'', ''origin/main'', pr_headSha pr]
              (exit_code w ''git'' [''rebase'', ''origin/main'', pr_headSha pr]),
            Exec ''git'' [''rebase'', ''--abort''] (exit_code w ''git'' [''rebase'', ''--abort''])]
         \<and> filter is_push (trace (run_rebase w s)) = filter is_push (trace s)
         \<and> remote_refs (world_of (run_rebase w s)) = remote_refs (world_of s)
         \<and> warnings (run_rebase w s) = warnings s @ [rebase_conflict_msg]
         \<and> output_of (run_rebase w s) ''rebased'' = Some ''false''
         \<and> output_of (run_rebase w s) ''error'' = Some rebase_conflict_msg
         \<and> failed (run_rebase w s) = failed s"
proof -
  have run: "run_rebase w s =
     s\<lparr>trace := trace s @
         [Exec ''git'' [''config'', ''user.name'', ''github-actions[bot]''] 0,
          Exec ''git'' [''config'', ''user.email'',
            ''github-actions[bot]@users.noreply.github.com''] 0,
          Exec ''git'' [''fetch'', ''origin'', ''main''] 0,
          Api FindOpenLspUpdatePr,
          Exec ''git'' [''rev-parse'', ''origin/main''] 0,
          Exec ''git'' [''merge-base'', pr_headSha pr, mainHead] 0,
          Exec ''git'' [''rebase'', ''origin/main'', pr_headSha pr]
            (exit_code w ''git'' [''rebase'', ''origin/main'', pr_headSha pr]),
          Exec ''git'' [''rebase'', ''--abort'']
            (exit_code w ''git'' [''rebase'', ''--abort''])],
       outputs := outputs s @
         [(''found'', ''true''), (''pr-number'', int_str (pr_number pr)),
          (''branch'', pr_branch pr), (''rebased'', ''false''),
          (''error'', rebase_conflict_msg)],
       warnings := warnings s @ [rebase_conflict_msg],
       world_of :=
         move_head w [''rebase'', ''--abort''] (exit_code w ''git'' [''rebase'', ''--abort''])
           (move_head w [''rebase'', ''origin/main'', pr_headSha pr]
              (exit_code w ''git'' [''rebase'', ''origin/main'', pr_headSha pr])
              ((world_of s)\<lparr>tracking :=
                 (tracking (world_of s))(''origin/main'' := remote_refs (world_of s) ''main'')\<rparr>))\<rparr>"
    using assms(1,5,6,10,11) unfolding assms(8)
    by (simp add: run_rebase_def rebase_body_def getInput_def findOpenLspUpdatePr_def
        exec_git_ok [OF assms(2)] exec_git_ok [OF assms(3)] exec_git_ok [OF assms(4)]
        exec_stdout_git_ok [OF assms(7)] exec_stdout_git_ok [OF assms(9) [unfolded assms(8)] ]
        exec_ignored process_exit_rebase process_effect_rebase
        effect_git_other effect_fetch comp_defs)
  show ?thesis
    by (simp add: run output_of_def)
qed

theorem rebase_conflict_atomic_witness:
  "filter is_push (trace (run_rebase conflict (start stale_sys))) = []
   \<and> remote_refs (world_of (run_rebase conflict (start stale_sys))) = remote_refs stale_sys
   \<and> warnings (run_rebase conflict (start stale_sys)) = [rebase_conflict_msg]
   \<and> output_of (run_rebase conflict (start stale_sys)) ''rebased'' = Some ''false''
   \<and> failed (run_rebase conflict (start stale_sys)) = None"
  using rebase_conflict_atomic [of conflict pr4 "''bbb''" "start stale_sys"]
  by (simp add: conflict_def pr4_def quiet_def start_def truthy_def isUpdateLspBranch_def
      trim_line)

text \<open>
  C7, as amended. Rebase no-op: in every run of the Rebase Keeper in which the merge
  base of the pull request's head and the tip of \<open>origin/main\<close> is that tip, the only
  commands run are the two \<open>git config\<close> of the identity and the \<open>git fetch origin main\<close>
  that precede the check, \<open>git rev-parse\<close> and \<open>git merge-base\<close>: no rebase and no push.
  The output \<open>rebased\<close> is \<open>false\<close>, the run is not failed, the branches of the hosted
  repository and the local commits are unchanged, and of the remote-tracking refs only
  \<open>origin/main\<close> is written, by the fetch, with the tip of the hosted \<open>main\<close>.
\<close>

theorem rebase_noop:
  assumes "truthy (input w ''github-token'')"
    and "exit_code w ''git'' [''config'', ''user.name'', ''github-actions[bot]''] = 0"
    and "exit_code w ''git'' [''config'', ''user.email'',
           ''github-actions[bot]@users.noreply.github.com''] = 0"
    and "exit_code w ''git'' [''fetch'', ''origin'', ''main''] = 0"
    and "api_fail w FindOpenLspUpdatePr = None"
    and "find (\<lambda>p. isUpdateLspBranch (Some (pr_branch p))) (open_pulls w) = Some pr"
    and "exit_code w ''git'' [''rev-parse'', ''origin/main''] = 0"
    and "mainHead = trim (stdout w ''git'' [''rev-parse'', ''origin/main''])"
    and "exit_code w ''git'' [''merge-base'', pr_headSha pr, mainHead] = 0"
    and "trim (stdout w ''git'' [''merge-base'', pr_headSha pr, mainHead]) = mainHead"
  shows "trace (run_rebase w s) = trace s @
           [Exec ''git'' [''config'', ''user.name'', ''github-actions[bot]''] 0,
            Exec ''git'' [''config'', ''user.email'',
              ''github-actions[bot]@users.noreply.github.com''] 0,
            Exec ''git'' [''fetch'', ''origin'', ''main''] 0,
            Api FindOpenLspUpdatePr,
            Exec ''git'' [''rev-parse'', ''origin/main''] 0,
            Exec ''git'' [''merge-base'', pr_headSha pr, mainHead] 0]
         \<and> filter is_rebase (trace (run_rebase w s)) = filter is_rebase (trace s)
         \<and> filter is_push (trace (run_rebase w s)) = filter is_push (trace s)
         \<and> output_of (run_rebase w s) ''rebased'' = Some ''false''
         \<and> failed (run_rebase w s) = failed s
         \<and> remote_refs (world_of (run_rebase w s)) = remote_refs (world_of s)
         \<and> commit_log (world_of (run_rebase w s)) = commit_log (world_of s)
         \<and> tracking (world_of (run_rebase w s)) =
             (tracking (world_of s))(''origin/main'' := remote_refs (world_of s) ''main'')"
proof -
  have run: "run_rebase w s =
     s\<lparr>trace := trace s @
         [Exec ''git'' [''config'', ''user.name'', ''github-actions[bot]''] 0,
          Exec ''git'' [''config'', ''user.email'',
            ''github-actions[bot]@users.noreply.github.com''] 0,
          Exec ''git'' [''fetch'', ''origin'', ''main''] 0,
          Api FindOpenLspUpdatePr,
          Exec ''git'' [''rev-parse'', ''origin/main''] 0,
          Exec ''git'' [''merge-base'', pr_headSha pr, mainHead] 0],
       outputs := outputs s @
         [(''found'', ''true''), (''pr-number'', int_str (pr_number pr)),
          (''branch'', pr_branch pr), (''rebased'', ''false'')],
       world_of := (world_of s)\<lparr>tracking :=
          (tracking (world_of s))(''origin/main'' := remote_refs (world_of s) ''main'')\<rparr>\<rparr>"
    using assms(1,5,6,10) unfolding assms(8)
    by (simp add: run_rebase_def rebase_body_def getInput_def findOpenLspUpdatePr_def
        exec_git_ok [OF assms(2)] exec_git_ok [OF assms(3)] exec_git_ok [OF assms(4)]
        exec_stdout_git_ok [OF assms(7)] exec_stdout_git_ok [OF assms(9) [unfolded assms(8)] ]
        effect_git_other effect_fetch comp_defs)
  show ?thesis
    by (simp add: run output_of_def)
qed

theorem rebase_noop_witness:
  "filter is_rebase (trace (run_rebase up_to_date (start stale_sys))) = []
   \<and> filter is_push (trace (run_rebase up_to_date (start stale_sys))) = []
   \<and> output_of (run_rebase up_to_date (start stale_sys)) ''rebased'' = Some ''false''
   \<and> remote_refs (world_of (run_rebase up_to_date (start stale_sys))) = remote_refs stale_sys"
proof -
  have h1: "truthy (input up_to_date ''github-token'')"
    by (simp add: up_to_date_def quiet_def truthy_def)
  have h2: "exit_code up_to_date tool args = 0" for tool args
    by (simp add: up_to_date_def quiet_def)
  have h5: "api_fail up_to_date FindOpenLspUpdatePr = None"
    by (simp add: up_to_date_def quiet_def)
  have h6: "find (\<lambda>p. isUpdateLspBranch (Some (pr_branch p))) (open_pulls up_to_date) = Some pr4"
    by (simp add: up_to_date_def quiet_def pr4_def isUpdateLspBranch_def truthy_def)
  have h8: "''bbb'' = trim (stdout up_to_date tool args)" for tool args
    by (simp add: up_to_date_def quiet_def trim_line)
  note inst = rebase_noop [OF h1 h2 h2 h2 h5 h6 h2 h8 h2 h8 [symmetric], of "start stale_sys"]
  then show ?thesis
    by (simp add: start_def)
qed

text \<open>
  C7 as stated fails: the merge base is the tip of \<open>origin/main\<close> (\<open>bbb\<close>), and yet the
  run has executed \<open>git fetch origin main\<close>, which moved the remote-tracking ref
  \<open>origin/main\<close> from \<open>b00\<close> to \<open>bbb\<close>.
\<close>

theorem rebase_noop_counterexample:
  "trim (stdout up_to_date ''git'' [''merge-base'', pr_headSha pr4, ''bbb'']) = ''bbb''
   \<and> trim (stdout up_to_date ''git'' [''rev-parse'', ''origin/main'']) = ''bbb''
   \<and> tracking stale_sys ''origin/main'' = Some ''b00''
   \<and> tracking (world_of (run_rebase up_to_date (start stale_sys))) ''origin/main'' = Some ''bbb''
   \<and> Exec ''git'' [''fetch'', ''origin'', ''main''] 0
       \<in> set (trace (run_rebase up_to_date (start stale_sys)))"
  by (simp add: up_to_date_def stale_sys_def no_sys_def pr4_def quiet_def start_def truthy_def
      isUpdateLspBranch_def trim_line run_rebase_def rebase_body_def getInput_def
      findOpenLspUpdatePr_def exec_stdout_def exec_def run_process_def process_exit_def
      process_effect_def process_output_def git_exit_def cmd_effect_def comp_defs)

section \<open>Change Committer: a path that is missing\<close>

text \<open>
  The state after \<open>updateVersionFiles\<close> for the version 1.3.0: in a checkout at 1.2.0
  that has no \<open>src/config.rs\<close>, and in one that has it.
\<close>

lemma no_config_state:
  "updateVersionFiles no_config ''1.3.0'' (start repo_no_config) =
     (Inr (),
      (start repo_no_config)
        \<lparr>trace :=
           [Fs ''readFile'' ''extension.toml'', Fs ''writeFile'' ''extension.toml'',
            Fs ''readFile'' ''Cargo.toml'', Fs ''writeFile'' ''Cargo.toml'',
            Fs ''access'' ''src/config.rs''],
         world_of := repo_no_config
           \<lparr>work_tree :=
              [(''Cargo.toml'', ''1.3.0 in Cargo.toml''),
               (''extension.toml'', ''1.3.0 in extension.toml''),
               (''Cargo.lock'', ''lock''),
               (''lsp/server.js'', ''bundle 1.2.0'')]\<rparr>\<rparr>)"
proof -
  have f: "fs_fail no_config ''readFile'' ''extension.toml'' = None"
    "fs_fail no_config ''writeFile'' ''extension.toml'' = None"
    "fs_fail no_config ''readFile'' ''Cargo.toml'' = None"
    "fs_fail no_config ''writeFile'' ''Cargo.toml'' = None"
    "fs_fail no_config ''access'' ''src/config.rs'' = Some ''ENOENT: no such file or directory''"
    by (simp_all add: no_config_def quiet_def)
  have w: "written no_config p = ''1.3.0 in '' @ p" for p
    by (simp add: no_config_def quiet_def)
  show ?thesis
    unfolding updateVersionFiles_no_config [OF f]
    by (simp add: fs_effect_def put_file_def w start_def repo_no_config_def
        checkout_no_config_def checkout_def no_sys_def)
qed

lemma with_config_state:
  "updateVersionFiles quiet ''1.3.0'' (start repo) =
     (Inr (),
      (start repo)
        \<lparr>trace :=
           [Fs ''readFile'' ''extension.toml'', Fs ''writeFile'' ''extension.toml'',
            Fs ''readFile'' ''Cargo.toml'', Fs ''writeFile'' ''Cargo.toml'',
            Fs ''access'' ''src/config.rs'', Fs ''readFile'' ''src/config.rs'',
            Fs ''writeFile'' ''src/config.rs''],
         world_of := repo
           \<lparr>work_tree :=
              [(''src/config.rs'', ''1.3.0 in src/config.rs''),
               (''Cargo.toml'', ''1.3.0 in Cargo.toml''),
               (''extension.toml'', ''1.3.0 in extension.toml''),
               (''Cargo.lock'', ''lock''),
               (''lsp/server.js'', ''bundle 1.2.0'')]\<rparr>\<rparr>)"
proof -
  have f: "\<forall>op path. fs_fail quiet op path = None"
    by (simp add: quiet_def)
  have w: "written quiet p = ''1.3.0 in '' @ p" for p
    by (simp add: quiet_def)
  show ?thesis
    unfolding updateVersionFiles_ok [OF f]
    by (simp add: fs_effect_def put_file_def w start_def repo_def checkout_def no_sys_def)
qed

text \<open>
  C6. Change Committer: the claim fails for \<open>commitChanges\<close> in a repository that has no
  \<open>src/config.rs\<close>, a case that \<open>updateVersionFiles\<close> provides for. After the version
  files are rewritten there (\<open>extension.toml\<close> and \<open>Cargo.toml\<close> differ from \<open>HEAD\<close>),
  \<open>git add\<close> of the five paths exits with 128 because one pathspec matches no file, and
  stages nothing; the exit code is ignored, the index still equals \<open>HEAD\<close>,
  \<open>git diff --cached --quiet\<close> exits with 0, and \<open>commitChanges\<close> returns \<open>false\<close>
  with no commit made although two of the given paths have changed. With \<open>src/config.rs\<close>
  present the same call stages the paths and makes one commit, whose message is
  \<open>chore: update language server to v1.3.0\<close>.
\<close>

theorem change_committer_unstaged:
  "fst (updateVersionFiles no_config ''1.3.0'' (start repo_no_config)) = Inr ()
   \<and> changed_paths
         (work_tree (world_of (snd (updateVersionFiles no_config ''1.3.0''
            (start repo_no_config)))))
         (head_tree repo_no_config) = [''extension.toml'', ''Cargo.toml'']
   \<and> fst (commitChanges no_config ''1.3.0''
            (snd (updateVersionFiles no_config ''1.3.0'' (start repo_no_config)))) = Inr False
   \<and> Exec ''git'' [''add'', ''extension.toml'', ''Cargo.toml'', ''Cargo.lock'',
           ''src/config.rs'', ''lsp/''] 128
        \<in> set (trace (snd (commitChanges no_config ''1.3.0''
               (snd (updateVersionFiles no_config ''1.3.0'' (start repo_no_config))))))
   \<and> index_tree (world_of (snd (commitChanges no_config ''1.3.0''
         (snd (updateVersionFiles no_config ''1.3.0'' (start repo_no_config)))))) =
       head_tree repo_no_config
   \<and> commit_log (world_of (snd (commitChanges no_config ''1.3.0''
         (snd (updateVersionFiles no_config ''1.3.0'' (start repo_no_config)))))) = []
   \<and> fst (commitChanges quiet ''1.3.0''
            (snd (updateVersionFiles quiet ''1.3.0'' (start repo)))) = Inr True
   \<and> commit_log (world_of (snd (commitChanges quiet ''1.3.0''
         (snd (updateVersionFiles quiet ''1.3.0'' (start repo)))))) =
       [ [''chore: update language server to v1.3.0''] ]"
proof -
  let ?s1 = "snd (updateVersionFiles no_config ''1.3.0'' (start repo_no_config))"
  let ?s2 = "snd (updateVersionFiles quiet ''1.3.0'' (start repo))"
  have e: "\<forall>tool args. exit_code no_config tool args = 0"
    and e': "exit_code quiet tool args = 0" for tool args
    by (simp_all add: no_config_def quiet_def)
  have w1: "world_of ?s1 = repo_no_config
           \<lparr>work_tree :=
              [(''Cargo.toml'', ''1.3.0 in Cargo.toml''),
               (''extension.toml'', ''1.3.0 in extension.toml''),
               (''Cargo.lock'', ''lock''),
               (''lsp/server.js'', ''bundle 1.2.0'')]\<rparr>"
    by (simp add: no_config_state)
  have w2: "world_of ?s2 = repo
           \<lparr>work_tree :=
              [(''src/config.rs'', ''1.3.0 in src/config.rs''),
               (''Cargo.toml'', ''1.3.0 in Cargo.toml''),
               (''extension.toml'', ''1.3.0 in extension.toml''),
               (''Cargo.lock'', ''lock''),
               (''lsp/server.js'', ''bundle 1.2.0'')]\<rparr>"
    by (simp add: with_config_state)
  have m: "\<not> all_matched update_paths (world_of ?s1)"
    unfolding w1
    by (simp add: all_matched_def update_paths_def under_def
        repo_no_config_def checkout_no_config_def checkout_def no_sys_def)
  have c: "changed_paths (index_tree (world_of ?s1)) (head_tree (world_of ?s1)) = []"
    unfolding w1 by (simp add: repo_no_config_def changed_paths_same)
  note bad = commitChanges_missing_path [OF e m c, where version = "''1.3.0''"]
  have d: "changed_paths (work_tree (world_of ?s1)) (head_tree repo_no_config) =
      [''extension.toml'', ''Cargo.toml'']"
    unfolding w1
    by (simp add: changed_paths_def repo_no_config_def checkout_no_config_def
        checkout_def no_sys_def)
  have m2: "all_matched update_paths (world_of ?s2)"
    unfolding w2
    by (simp add: all_matched_def update_paths_def under_def repo_def checkout_def no_sys_def)
  have c2: "changed_paths
      (stage update_paths (work_tree (world_of ?s2)) (index_tree (world_of ?s2)))
      (head_tree (world_of ?s2)) \<noteq> []"
    unfolding w2
    by (simp add: stage_def matched_def update_paths_def under_def
        changed_paths_def repo_def checkout_def no_sys_def)
  note good = commitChanges_run [OF e' e' e' e' e' refl, where version = "''1.3.0''" and s = ?s2]
  have g: "fst (commitChanges quiet ''1.3.0'' ?s2) = Inr True"
    "commit_log (world_of (snd (commitChanges quiet ''1.3.0'' ?s2))) =
       commit_log (world_of ?s2) @ [ [commit_title ''1.3.0''] ]"
    unfolding good using m2 c2 by simp_all
  have l: "commit_log (world_of ?s1) = []" "commit_log (world_of ?s2) = []"
    "index_tree (world_of ?s1) = head_tree repo_no_config"
    unfolding w1 w2
    by (simp_all add: repo_no_config_def repo_def no_sys_def)
  have u: "fst (updateVersionFiles no_config ''1.3.0'' (start repo_no_config)) = Inr ()"
    by (simp add: no_config_state)
  have t: "fst (commitChanges no_config ''1.3.0'' ?s1) = Inr False"
    "Exec ''git'' (''add'' # update_paths) 128
       \<in> set (trace (snd (commitChanges no_config ''1.3.0'' ?s1)))"
    "index_tree (world_of (snd (commitChanges no_config ''1.3.0'' ?s1))) =
       index_tree (world_of ?s1)"
    "commit_log (world_of (snd (commitChanges no_config ''1.3.0'' ?s1))) =
       commit_log (world_of ?s1)"
    unfolding bad by simp_all
  show ?thesis
    using d l g t u by (simp add: update_paths_def commit_title_def)
qed

section \<open>Prerelease Publisher: creation and cleanup\<close>

text \<open>
  C2, as amended. \<open>createPrerelease\<close> never looks up the releases that exist: once the
  bundle and the checksum file are written it always asks the platform to create a new
  entry for the tag (\<open>tag_name\<close> the version, \<open>draft = false\<close>, \<open>prerelease = true\<close>),
  whether or not the tag has a prerelease already. When the platform refuses, the call
  throws the platform's error and the releases are unchanged; when the platform accepts,
  the new entry is listed besides the entries that exist, and an id and url that the call
  returns are those of the new entry.
\<close>

theorem prerelease_always_created:
  assumes "exit_code w ''tar'' [''-czf'', tarball_name version, ''lsp/''] = 0"
    and "fs_fail w ''readFile'' (tarball_name version) = None"
    and "fs_fail w ''writeFile'' (sha256_name version) = None"
  shows "Api (CreateRelease version (''v'' @ version) (prerelease_body version) False True)
           \<in> set (trace (snd (createPrerelease w version s)))
       \<and> (Api ListReleases \<notin> set (trace s) \<longrightarrow>
            Api ListReleases \<notin> set (trace (snd (createPrerelease w version s))))
       \<and> (api_fail w (CreateRelease version (''v'' @ version) (prerelease_body version)
              False True) = Some msg \<longrightarrow>
            fst (createPrerelease w version s) = Inl msg
            \<and> releases (world_of (snd (createPrerelease w version s))) = releases (world_of s))
       \<and> (api_fail w (CreateRelease version (''v'' @ version) (prerelease_body version)
              False True) = None \<longrightarrow>
            releases (world_of (snd (createPrerelease w version s))) =
              \<lparr>rel_id = new_release_id w, tag_name = version, rel_name = ''v'' @ version,
               rel_body = prerelease_body version, draft = False, prerelease = True,
               html_url = new_release_url w\<rparr> # releases (world_of s))
       \<and> (fst (createPrerelease w version s) = Inr r \<longrightarrow>
            r = (new_release_id w, new_release_url w))"
  using createPrerelease_asks [OF assms] createPrerelease_no_lookup
    createPrerelease_rejected [OF assms] createPrerelease_accepted [OF assms]
    createPrerelease_returns_new
  by simp

theorem prerelease_always_created_witness:
  "fst (createPrerelease quiet ''1.3.0'' (start with_prerelease)) =
     Inr (8, ''https://example.test/releases/8'')
   \<and> map rel_id (releases (world_of (snd (createPrerelease quiet ''1.3.0''
         (start with_prerelease))))) = [8, 7]"
proof -
  have h: "exit_code quiet tool args = 0" "fs_fail quiet op path = None"
    "api_fail quiet r = None" for tool args op path r
    by (simp_all add: quiet_def)
  have n: "new_release_id quiet = 8" "new_release_url quiet = ''https://example.test/releases/8''"
    by (simp_all add: quiet_def)
  have old: "releases (world_of (start with_prerelease)) = [rel7]"
    by (simp add: start_def with_prerelease_def no_sys_def)
  note inst = prerelease_always_created [OF h(1) h(2) h(2), of "''1.3.0''" "start with_prerelease"]
  have ok: "fst (createPrerelease quiet ''1.3.0'' (start with_prerelease)) =
     Inr (new_release_id quiet, new_release_url quiet)"
    by (simp add: createPrerelease_done [OF h(1) h(2) h(2) h(3) h(3) h(2) h(3) h(1)])
  from inst [THEN conjunct2, THEN conjunct2, THEN conjunct2, THEN conjunct1, rule_format, OF h(3)]
    inst [THEN conjunct2, THEN conjunct2, THEN conjunct2, THEN conjunct2, rule_format, OF ok]
    ok
  show ?thesis
    by (simp add: n old rel7_def)
qed

text \<open>
  C2 as stated fails where the tag 1.3.0 already has the live prerelease 7: on a platform
  that accepts the request the call returns the new entry 8, and the tag then has two
  entries; on a platform that refuses a second entry for a tag the call throws. In
  neither case does it return the id and url of the entry 7.
\<close>

theorem prerelease_reuse_counterexample:
  "tag_name rel7 = ''1.3.0'' \<and> prerelease rel7
   \<and> releases (world_of (start with_prerelease)) = [rel7]
   \<and> fst (createPrerelease quiet ''1.3.0'' (start with_prerelease)) =
       Inr (8, ''https://example.test/releases/8'')
   \<and> map rel_id (releases (world_of (snd (createPrerelease quiet ''1.3.0''
         (start with_prerelease))))) = [8, 7]
   \<and> map tag_name (releases (world_of (snd (createPrerelease quiet ''1.3.0''
         (start with_prerelease))))) = [''1.3.0'', ''1.3.0'']
   \<and> fst (createPrerelease rejecting ''1.3.0'' (start with_prerelease)) =
       Inl ''Validation Failed: already_exists''"
proof -
  have q: "exit_code quiet tool args = 0" "fs_fail quiet op path = None"
    "api_fail quiet r = None" for tool args op path r
    by (simp_all add: quiet_def)
  have j: "exit_code rejecting tool args = 0" "fs_fail rejecting op path = None"
    "api_fail rejecting (CreateRelease t n b d p) = Some ''Validation Failed: already_exists''"
    for tool args op path t n b d p
    by (simp_all add: rejecting_def quiet_def)
  have n: "new_release_id quiet = 8" "new_release_url quiet = ''https://example.test/releases/8''"
    by (simp_all add: quiet_def)
  have old: "releases (world_of (start with_prerelease)) = [rel7]"
    by (simp add: start_def with_prerelease_def no_sys_def)
  note d = createPrerelease_done [OF q(1) q(2) q(2) q(3) q(3) q(2) q(3) q(1),
      of "''1.3.0''" "start with_prerelease"]
  note r = createPrerelease_rejected [OF j(1) j(2) j(2) j(3),
      of "''1.3.0''" "start with_prerelease"]
  show ?thesis
    by (simp add: d r n old rel7_def)
qed

lemma scratch_upload_failed:
  assumes "buildLsp w lspVersion ''lsp'' s = (Inr built, s1)"
    and "exit_code w ''tar'' [''-czf'', tarball_name lspVersion, ''lsp/''] = 0"
    and "exit_code w ''sha256sum'' [tarball_name lspVersion] = 0"
    and "fs_fail w ''writeFile'' (sha256_name lspVersion) = None"
    and "api_fail w (CreateRelease version (''v'' @ version) body False False) = None"
    and "fs_fail w ''readFile'' (tarball_name lspVersion) = None"
    and "api_fail w (UploadReleaseAsset (new_release_id w) (tarball_name lspVersion)) = Some msg"
  shows "createReleaseFromScratch w version lspVersion body s =
     (Inl msg,
      s1\<lparr>trace := trace s1 @
            [Exec ''tar'' [''-czf'', tarball_name lspVersion, ''lsp/''] 0,
             Exec ''sha256sum'' [tarball_name lspVersion] 0,
             Fs ''writeFile'' (sha256_name lspVersion),
             Api (CreateRelease version (''v'' @ version) body False False),
             Fs ''readFile'' (tarball_name lspVersion),
             Api (UploadReleaseAsset (new_release_id w) (tarball_name lspVersion))],
         world_of :=
           (fs_effect w ''writeFile'' (sha256_name lspVersion)
              (cmd_effect w ''tar'' [''-czf'', tarball_name lspVersion, ''lsp/'']
                 (world_of s1)))
           \<lparr>releases :=
             \<lparr>rel_id = new_release_id w, tag_name = version, rel_name = ''v'' @ version,
              rel_body = body, draft = False, prerelease = False,
              html_url = new_release_url w\<rparr> # releases (world_of s1)\<rparr>\<rparr>)"
  using assms(1,4-7)
  by (simp add: createReleaseFromScratch_def exec_sync_ok [OF assms(2)]
      exec_sync_ok [OF assms(3)] effect_other createRelease_def uploadReleaseAsset_def
      fs_effect_read comp_defs)

text \<open>
  C9. Prerelease Publisher cleanup: the claim fails when the upload of the bundle fails.
  On a platform where every upload fails, \<open>createPrerelease\<close> for 1.3.0 throws the
  error of the upload right after it: the \<open>rm\<close> that follows the uploads is not
  run, and the bundle and the checksum file are still in the work tree. \<open>run\<close> of
  update-lsp then ends failed with that error and both files in place. The same holds for
  \<open>createReleaseFromScratch\<close>.
\<close>

theorem prerelease_cleanup_skipped:
  "fst (createPrerelease upload_fails ''1.3.0'' (start repo)) = Inl ''upload failed''
   \<and> trace (snd (createPrerelease upload_fails ''1.3.0'' (start repo))) =
       [Exec ''tar'' [''-czf'', ''stylelint-language-server-v1.3.0.tar.gz'', ''lsp/''] 0,
        Fs ''readFile'' ''stylelint-language-server-v1.3.0.tar.gz'',
        Fs ''writeFile'' ''stylelint-language-server-v1.3.0.sha256'',
        Api (CreateRelease ''1.3.0'' ''v1.3.0'' (prerelease_body ''1.3.0'') False True),
        Api (UploadReleaseAsset 8 ''stylelint-language-server-v1.3.0.tar.gz'')]
   \<and> map_of (work_tree (world_of (snd (createPrerelease upload_fails ''1.3.0'' (start repo)))))
         ''stylelint-language-server-v1.3.0.tar.gz'' =
       Some ''1.3.0 in stylelint-language-server-v1.3.0.tar.gz''
   \<and> map_of (work_tree (world_of (snd (createPrerelease upload_fails ''1.3.0'' (start repo)))))
         ''stylelint-language-server-v1.3.0.sha256'' =
       Some ''1.3.0 in stylelint-language-server-v1.3.0.sha256''
   \<and> failed (run_update_lsp upload_fails (start repo)) = Some ''upload failed''
   \<and> map_of (work_tree (world_of (run_update_lsp upload_fails (start repo))))
         ''stylelint-language-server-v1.3.0.tar.gz'' =
       Some ''1.3.0 in stylelint-language-server-v1.3.0.tar.gz''
   \<and> map_of (work_tree (world_of (run_update_lsp upload_fails (start repo))))
         ''stylelint-language-server-v1.3.0.sha256'' =
       Some ''1.3.0 in stylelint-language-server-v1.3.0.sha256''
   \<and> fst (createReleaseFromScratch upload_fails ''1.2.0'' ''1.2.0'' ''Release v1.2.0''
            (start repo)) = Inl ''upload failed''
   \<and> map_of (work_tree (world_of (snd (createReleaseFromScratch upload_fails ''1.2.0'' ''1.2.0''
         ''Release v1.2.0'' (start repo)))))
         ''stylelint-language-server-v1.2.0.tar.gz'' =
       Some ''1.3.0 in stylelint-language-server-v1.2.0.tar.gz''
   \<and> map_of (work_tree (world_of (snd (createReleaseFromScratch upload_fails ''1.2.0'' ''1.2.0''
         ''Release v1.2.0'' (start repo)))))
         ''stylelint-language-server-v1.2.0.sha256'' =
       Some ''1.3.0 in stylelint-language-server-v1.2.0.sha256''"
proof -
  have e: "exit_code upload_fails tool args = 0" and f: "fs_fail upload_fails op path = None"
    and cr: "api_fail upload_fails (CreateRelease t n b d p) = None"
    and up: "api_fail upload_fails (UploadReleaseAsset i a) = Some ''upload failed''"
    for tool args op path t n b d p i a
    by (simp_all add: upload_fails_def quiet_def)
  have q: "new_release_id upload_fails = 8" "written upload_fails x = ''1.3.0 in '' @ x"
    "is_directory upload_fails (tmp_dir upload_fails @ ''/dist'')"
    "dir_entries upload_fails ''lsp'' \<noteq> []"
    "latest_upstream upload_fails = \<lparr>u_version = ''1.3.0'', u_body = ''notes''\<rparr>"
    for x
    by (simp_all add: upload_fails_def quiet_def)
  have ex: "\<forall>tool args. exit_code upload_fails tool args = 0"
    and fsok: "\<forall>op path. fs_fail upload_fails op path = None"
    using e f by simp_all
  note pre = createPrerelease_upload_failed [OF e f f cr up,
      where version = "''1.3.0''" and s = "start repo"]
  have p: "fst (createPrerelease upload_fails ''1.3.0'' (start repo)) = Inl ''upload failed''"
    "trace (snd (createPrerelease upload_fails ''1.3.0'' (start repo))) =
       [Exec ''tar'' [''-czf'', tarball_name ''1.3.0'', ''lsp/''] 0,
        Fs ''readFile'' (tarball_name ''1.3.0''),
        Fs ''writeFile'' (sha256_name ''1.3.0''),
        Api (CreateRelease ''1.3.0'' ''v1.3.0'' (prerelease_body ''1.3.0'') False True),
        Api (UploadReleaseAsset 8 (tarball_name ''1.3.0''))]"
    "map_of (work_tree (world_of (snd (createPrerelease upload_fails ''1.3.0'' (start repo)))))
         (tarball_name ''1.3.0'') = Some (written upload_fails (tarball_name ''1.3.0''))"
    "map_of (work_tree (world_of (snd (createPrerelease upload_fails ''1.3.0'' (start repo)))))
         (sha256_name ''1.3.0'') = Some (written upload_fails (sha256_name ''1.3.0''))"
    unfolding pre
    by (simp_all add: q(1) start_def fs_effect_def effect_tar map_of_put_file
        bundle_names_distinct)
  let ?c = "\<lparr>needed = True, c_version = ''1.3.0'', changelog = ''notes''\<rparr>"
  let ?s0 = "(start repo)\<lparr>trace := trace (start repo) @
      [Api FindOpenLspUpdatePr, Fs ''readFile'' ''extension.toml'', Api GetLatestLspRelease]\<rparr>"
  have run: "run_update_lsp upload_fails (start repo) = run_main (update_steps upload_fails ?c) ?s0"
    using oracle_run [where w = upload_fails and s = "start repo"]
    by (simp add: upload_fails_def quiet_def truthy_def trim_empty getLspVersion_def)
  have cv: "''1.3.0'' = c_version ?c"
    by simp
  note st = update_steps_upload_failed [OF ex fsok q(3,4) cv cr up, where s = ?s0]
  have r: "failed (run_update_lsp upload_fails (start repo)) = Some ''upload failed''"
    "map_of (work_tree (world_of (run_update_lsp upload_fails (start repo))))
       (tarball_name ''1.3.0'') = Some (written upload_fails (tarball_name ''1.3.0''))"
    "map_of (work_tree (world_of (run_update_lsp upload_fails (start repo))))
       (sha256_name ''1.3.0'') = Some (written upload_fails (sha256_name ''1.3.0''))"
    unfolding run
      run_main_failed [where body = "update_steps upload_fails ?c" and s = ?s0, OF st(1)]
    using st(2,3) by simp_all
  note build = buildLsp_ok [OF ex fsok q(3,4), where version = "''1.2.0''" and s = "start repo"]
  note scr = scratch_upload_failed [OF build e e f cr f up,
      where version = "''1.2.0''" and body = "''Release v1.2.0''"]
  have c: "fst (createReleaseFromScratch upload_fails ''1.2.0'' ''1.2.0'' ''Release v1.2.0''
            (start repo)) = Inl ''upload failed''"
    "map_of (work_tree (world_of (snd (createReleaseFromScratch upload_fails ''1.2.0'' ''1.2.0''
         ''Release v1.2.0'' (start repo))))) (tarball_name ''1.2.0'') =
       Some (written upload_fails (tarball_name ''1.2.0''))"
    "map_of (work_tree (world_of (snd (createReleaseFromScratch upload_fails ''1.2.0'' ''1.2.0''
         ''Release v1.2.0'' (start repo))))) (sha256_name ''1.2.0'') =
       Some (written upload_fails (sha256_name ''1.2.0''))"
    unfolding scr
    by (simp_all add: fs_effect_def effect_tar map_of_put_file bundle_names_distinct)
  from p r c show ?thesis
    by (simp add: q(2) tarball_name_def sha256_name_def)
qed


end
